theory Spec2Isabelle
  imports Complex_Main "HOL-Library.Sublist" "HOL-Library.AList"
begin

section \<open>Python values and the imported libraries\<close>

text \<open>
  A Python float is a real number or the not-a-number value. Comparisons with NaN are
  all false, as in IEEE arithmetic. Rounding and the two infinities are not modelled:
  an infinity orders against zero and against a threshold like a finite value of large
  magnitude, which is all that the code below asks of a t-statistic.
\<close>

datatype pyfloat = Float real | NaN

fun fl_less :: "pyfloat \<Rightarrow> pyfloat \<Rightarrow> bool" where
  "fl_less (Float x) (Float y) = (x < y)"
| "fl_less _ _ = False"

fun fl_le :: "pyfloat \<Rightarrow> pyfloat \<Rightarrow> bool" where
  "fl_le (Float x) (Float y) = (x \<le> y)"
| "fl_le _ _ = False"

fun fl_div :: "pyfloat \<Rightarrow> real \<Rightarrow> pyfloat" where
  "fl_div (Float x) d = Float (x / d)"
| "fl_div NaN d = NaN"

text \<open>The values a caller can pass for an optional, untyped parameter such as \<open>alpha\<close>.\<close>

datatype pyval = PNone | PBool bool | PInt int | PFloat pyfloat | PStr string

datatype error =
    ValueError "string list"
  | LinAlgError string
  | ZeroDivisionError
  | AttributeError string
  | IndexError
  | OtherError string

text \<open>Sequencing: the first exception raised ends the computation.\<close>

definition and_then :: "error + 'a \<Rightarrow> ('a \<Rightarrow> error + 'b) \<Rightarrow> error + 'b" where
  "and_then m f = (case m of Inl err \<Rightarrow> Inl err | Inr v \<Rightarrow> f v)"

text \<open>Truth value testing (\<open>if v:\<close>, \<open>not v\<close>, \<open>v and ...\<close>).\<close>

fun truthy :: "pyval \<Rightarrow> bool" where
  "truthy PNone = False"
| "truthy (PBool b) = b"
| "truthy (PInt i) = (i \<noteq> 0)"
| "truthy (PFloat f) = (f \<noteq> Float 0)"
| "truthy (PStr s) = (s \<noteq> [])"

text \<open>\<open>type(v).__name__\<close>\<close>

fun type_name :: "pyval \<Rightarrow> string" where
  "type_name PNone = ''NoneType''"
| "type_name (PBool b) = ''bool''"
| "type_name (PInt i) = ''int''"
| "type_name (PFloat f) = ''float''"
| "type_name (PStr s) = ''str''"

text \<open>The number a value stands for in a comparison, when it is one.\<close>

fun num_of :: "pyval \<Rightarrow> pyfloat option" where
  "num_of (PInt i) = Some (Float (of_int i))"
| "num_of (PFloat f) = Some f"
| "num_of (PBool b) = Some (Float (if b then 1 else 0))"
| "num_of _ = None"

text \<open>
  \<open>v < c\<close> and \<open>v > c\<close> for a numeric constant \<open>c\<close>. The code evaluates them only after
  it has checked that \<open>type(v)\<close> is \<open>int\<close> or \<open>float\<close>; for the other types the
  interpreter's fixed ordering of unlike types applies (\<open>None\<close> below every number,
  a string above).
\<close>

definition py_lt :: "pyval \<Rightarrow> real \<Rightarrow> bool" where
  "py_lt v c = (case num_of v of Some f \<Rightarrow> fl_less f (Float c) | None \<Rightarrow> v = PNone)"

definition py_gt :: "pyval \<Rightarrow> real \<Rightarrow> bool" where
  "py_gt v c = (case num_of v of Some f \<Rightarrow> fl_less (Float c) f | None \<Rightarrow> v \<noteq> PNone)"

text \<open>\<open>p >= v\<close> for a float \<open>p\<close>.\<close>

definition py_ge :: "pyfloat \<Rightarrow> pyval \<Rightarrow> bool" where
  "py_ge p v = (case num_of v of Some f \<Rightarrow> fl_le f p | None \<Rightarrow> v = PNone)"

text \<open>\<open>str(n)\<close> for a non-negative integer: its decimal digits.\<close>

definition digit_char :: "nat \<Rightarrow> char" where
  "digit_char d = ''0123456789'' ! d"

fun str_nat :: "nat \<Rightarrow> string" where
  "str_nat n = (if n < 10 then [digit_char n] else str_nat (n div 10) @ [digit_char (n mod 10)])"

declare str_nat.simps [simp del]

definition str_int :: "int \<Rightarrow> string" where
  "str_int i = (if i < 0 then CHR ''-'' # str_nat (nat (- i)) else str_nat (nat i))"

text \<open>
  The functions the two modules import. Their bodies are not part of the repository, so
  they are parameters of the model: the SciPy t-tests and distribution functions, the
  matrix inverse, the formatting of a float by \<open>str\<close>, and \<open>strftime\<close> applied to the
  local time read at the start of a report. A library function that can raise returns
  a sum.
\<close>

record pylib =
  stats_ttest_1samp :: "real list \<Rightarrow> pyval \<Rightarrow> error + pyfloat \<times> pyfloat"
  stats_ttest_ind :: "real list \<Rightarrow> real list \<Rightarrow> bool \<Rightarrow> error + pyfloat \<times> pyfloat"
  stats_ttest_rel :: "real list \<Rightarrow> real list \<Rightarrow> error + pyfloat \<times> pyfloat"
  str_float :: "pyfloat \<Rightarrow> string"
  strftime :: "string \<Rightarrow> string"
  linalg_inv :: "real list list \<Rightarrow> error + real list list"
  stats_t_cdf :: "real \<Rightarrow> int \<Rightarrow> real"
  stats_f_cdf :: "real \<Rightarrow> int \<Rightarrow> int \<Rightarrow> real"
  stats_chi2_cdf :: "real \<Rightarrow> int \<Rightarrow> real"
  stats_skew :: "real list \<Rightarrow> real"
  stats_kurtosis :: "real list \<Rightarrow> real"
  stats_normaltest :: "real list \<Rightarrow> error + pyfloat \<times> pyfloat"

text \<open>\<open>str(v)\<close>\<close>

fun py_str :: "pylib \<Rightarrow> pyval \<Rightarrow> string" where
  "py_str L PNone = ''None''"
| "py_str L (PBool b) = (if b then ''True'' else ''False'')"
| "py_str L (PInt i) = str_int i"
| "py_str L (PFloat f) = str_float L f"
| "py_str L (PStr s) = s"

text \<open>The values that \<open>json.dump\<close> is handed.\<close>

datatype json =
    JNull | JBool bool | JInt int | JFloat pyfloat | JStr string
  | JList "json list" | JObj "(string \<times> json) list"

fun to_json :: "pyval \<Rightarrow> json" where
  "to_json PNone = JNull"
| "to_json (PBool b) = JBool b"
| "to_json (PInt i) = JInt i"
| "to_json (PFloat f) = JFloat f"
| "to_json (PStr s) = JStr s"

definition rule_line :: string where
  "rule_line = replicate 78 (CHR ''='')"

section \<open>wrappers/ttest.py\<close>

subsection \<open>The one-sample test\<close>

record ttest_1samp =
  a :: "real list"
  popmean :: pyval
  alt_hyp :: string
  alpha :: pyval
  t_stat :: pyfloat
  p_val :: pyfloat

text \<open>
  \<open>check_params\<close> reads \<open>self.alt_hyp\<close> and \<open>self.alpha\<close> and returns nothing: the
  model returns the exception it raises, if any.
\<close>

definition check_params_1samp :: "pylib \<Rightarrow> string \<Rightarrow> pyval \<Rightarrow> error option" where
  "check_params_1samp L alt al =
     (if alt \<notin> set [''less'', ''unequal'', ''greater'']
      then Some (ValueError [''Invalid alternative hypothesis. '' @
                             ''Expected '' @ [CHR 0x27] @ ''less'' @ [CHR 0x27] @ '', '' @
                             [CHR 0x27] @ ''unequal'' @ [CHR 0x27] @ '', or '' @
                             [CHR 0x27] @ ''greater'' @ [CHR 0x27] @ '' '' @
                             ''but got: '' @ [CHR 0x27] @ alt @ [CHR 0x27]])
      else if truthy al
      then (if type_name al \<notin> set [''int'', ''float'']
            then Some (ValueError [''Invalid alpha data type. '' @
                                   ''Expected '' @ [CHR 0x27] @ ''int'' @ [CHR 0x27] @ '' or '' @
                                   [CHR 0x27] @ ''float'' @ [CHR 0x27] @ '' '' @
                                   ''but got: '' @ [CHR 0x27] @ type_name al @ [CHR 0x27]])
            else if py_lt al 0 \<or> py_gt al 1
            then Some (ValueError [''Invalid alpha data value. '' @
                                   ''Expected somewhere in range [0, 1] '' @
                                   ''but got a value of:'', py_str L al])
            else None)
      else None)"

text \<open>\<open>test\<close>: the library's two-sided test, then the halving for a directional alternative.\<close>

definition test_1samp ::
  "pylib \<Rightarrow> real list \<Rightarrow> pyval \<Rightarrow> string \<Rightarrow> error + pyfloat \<times> pyfloat" where
  "test_1samp L xs pm alt =
     (case stats_ttest_1samp L xs pm of
        Inl e \<Rightarrow> Inl e
      | Inr (t, p) \<Rightarrow> Inr (t, if alt \<noteq> ''unequal'' then fl_div p 2 else p))"

text \<open>\<open>__init__\<close>: store the arguments, check them, run the test.\<close>

definition ttest_1samp_init ::
  "pylib \<Rightarrow> real list \<Rightarrow> pyval \<Rightarrow> string \<Rightarrow> pyval \<Rightarrow> error + ttest_1samp" where
  "ttest_1samp_init L xs pm alt al =
     (case check_params_1samp L alt al of
        Some e \<Rightarrow> Inl e
      | None \<Rightarrow>
          (case test_1samp L xs pm alt of
             Inl e \<Rightarrow> Inl e
           | Inr (t, p) \<Rightarrow>
               Inr \<lparr>ttest_1samp.a = xs, popmean = pm, alt_hyp = alt, alpha = al,
                    t_stat = t, p_val = p\<rparr>))"

text \<open>
  The two conditions of the decision. \<open>summary\<close> and \<open>to_file\<close> of both classes test
  them with the same text (lines 138-148, 205-215, 390-400 and 462-472).
\<close>

definition keep_null :: "pyval \<Rightarrow> pyfloat \<Rightarrow> bool" where
  "keep_null al p = ((truthy al \<and> py_ge p al) \<or> p = Float 0 \<or> \<not> truthy al)"

definition direction_holds :: "string \<Rightarrow> pyfloat \<Rightarrow> bool" where
  "direction_holds alt t =
     (alt = ''unequal'' \<or> (alt = ''less'' \<and> fl_less t (Float 0)) \<or>
      (alt = ''greater'' \<and> fl_less (Float 0) t))"

definition NULL_label :: string where
  "NULL_label = [CHR 0x0A] @ ''Reject Null Hypothesis: ''"

definition ALT_label :: string where
  "ALT_label = ''Accept Alternative Hypothesis: ''"

text \<open>\<open>summary\<close>: the strings printed, one per call of \<open>print\<close>.\<close>

definition ttest_1samp_summary :: "pylib \<Rightarrow> ttest_1samp \<Rightarrow> string list" where
  "ttest_1samp_summary L s =
     (let size = length (ttest_1samp.a s);
          assumptions = ''   Independent Observations'';
          (alternative, sided) =
            (if ttest_1samp.alt_hyp s = ''unequal''
             then (''Mean 1 != '' @ py_str L (popmean s), ''two-sided'')
             else (if ttest_1samp.alt_hyp s = ''less''
                   then ''Mean 1 < '' @ py_str L (popmean s)
                   else ''Mean 1 > '' @ py_str L (popmean s), ''one-sided''))
      in [[CHR 0x0A] @ rule_line,
          ''Significance Test: T-Test ('' @ sided @ '')'',
          ''Date: '' @ strftime L ''%a, %d %b %Y'',
          ''Time: '' @ strftime L ''%H:%M:%S'',
          [CHR 0x0A] @ ''Assumptions: '',
          assumptions,
          [CHR 0x0A] @ ''Data Size: '' @ str_nat size,
          ''Population Mean: '' @ py_str L (popmean s),
          [CHR 0x0A] @ ''Null Hypothesis:        Mean 1 == '' @ py_str L (popmean s),
          ''Alternative Hypothesis: '' @ alternative,
          [CHR 0x0A] @ ''T-Statistic: '' @ str_float L (ttest_1samp.t_stat s),
          ''P-Value: '' @ str_float L (ttest_1samp.p_val s),
          ''Alpha: '' @ py_str L (ttest_1samp.alpha s)] @
         (if keep_null (ttest_1samp.alpha s) (ttest_1samp.p_val s)
          then [NULL_label @ ''No'', ALT_label @ ''No'']
          else [NULL_label @ ''Yes'',
                if direction_holds (ttest_1samp.alt_hyp s) (ttest_1samp.t_stat s)
                then ALT_label @ ''Yes'' else ALT_label @ ''No'']) @
         [rule_line])"

text \<open>
  \<open>to_file\<close>: the file name and the dictionary handed to \<open>json.dump\<close>. The name is
  the argument, or one made from the time when the argument is \<open>None\<close> or empty.
\<close>

definition ttest_1samp_to_file ::
  "pylib \<Rightarrow> ttest_1samp \<Rightarrow> string option \<Rightarrow> string \<times> (string \<rightharpoonup> json)" where
  "ttest_1samp_to_file L s filename =
     (let size = length (ttest_1samp.a s);
          assumptions = [''Independent Observations''];
          (alternative, sided) =
            (if ttest_1samp.alt_hyp s = ''unequal''
             then (''Mean 1 != '' @ py_str L (popmean s), ''two-sided'')
             else (if ttest_1samp.alt_hyp s = ''less''
                   then ''Mean 1 < '' @ py_str L (popmean s)
                   else ''Mean 1 > '' @ py_str L (popmean s), ''one-sided''));
          data = Map.empty
            (''sig_test'' \<mapsto> JStr (''T-Test ('' @ sided @ '')''),
             ''date'' \<mapsto> JStr (strftime L ''%a, %d %b %Y''),
             ''time'' \<mapsto> JStr (strftime L ''%H:%M:%S''),
             ''assumptions'' \<mapsto> JList (map JStr assumptions),
             ''data_size'' \<mapsto> JInt (int size),
             ''pop_mean'' \<mapsto> to_json (popmean s),
             ''null_hyp'' \<mapsto> JList [JStr ''Mean 1 =='', to_json (popmean s)],
             ''alt_hyp'' \<mapsto> JStr alternative,
             ''t_stat'' \<mapsto> JFloat (ttest_1samp.t_stat s),
             ''p_val'' \<mapsto> JFloat (ttest_1samp.p_val s));
          data = (if keep_null (ttest_1samp.alpha s) (ttest_1samp.p_val s)
                  then data(''reject_null'' \<mapsto> JBool False, ''accept_alt'' \<mapsto> JBool False)
                  else (let data = data(''reject_null'' \<mapsto> JBool True)
                        in if direction_holds (ttest_1samp.alt_hyp s) (ttest_1samp.t_stat s)
                           then data(''accept_alt'' \<mapsto> JBool True)
                           else data(''accept_alt'' \<mapsto> JBool False)));
          filename = (case filename of
                        None \<Rightarrow> strftime L ''%a_%d_%b_%Y_%H_%M_%S.json''
                      | Some f \<Rightarrow> if f = [] then strftime L ''%a_%d_%b_%Y_%H_%M_%S.json'' else f)
      in (filename, data))"

subsection \<open>The two-sample test\<close>

record ttest_2samp =
  a :: "real list"
  b :: "real list"
  test_type :: string
  equal_var :: bool
  alt_hyp :: string
  alpha :: pyval
  t_stat :: pyfloat
  p_val :: pyfloat

definition check_params_2samp :: "pylib \<Rightarrow> string \<Rightarrow> string \<Rightarrow> pyval \<Rightarrow> error option" where
  "check_params_2samp L tt alt al =
     (if tt \<notin> set [''ind'', ''rel'']
      then Some (ValueError [''Invalid t-test type. '' @
                             ''Expected '' @ [CHR 0x27] @ ''ind'' @ [CHR 0x27] @ '' or '' @
                             [CHR 0x27] @ ''rel'' @ [CHR 0x27] @ '' '' @
                             ''but got: '' @ [CHR 0x27] @ tt @ [CHR 0x27]])
      else if alt \<notin> set [''less'', ''unequal'', ''greater'']
      then Some (ValueError [''Invalid alternative hypothesis. '' @
                             ''Expected '' @ [CHR 0x27] @ ''less'' @ [CHR 0x27] @ '', '' @
                             [CHR 0x27] @ ''unequal'' @ [CHR 0x27] @ '', or '' @
                             [CHR 0x27] @ ''greater'' @ [CHR 0x27] @ '' '' @
                             ''but got: '' @ [CHR 0x27] @ alt @ [CHR 0x27]])
      else if truthy al
      then (if type_name al \<notin> set [''int'', ''float'']
            then Some (ValueError [''Invalid alpha data type. '' @
                                   ''Expected '' @ [CHR 0x27] @ ''int'' @ [CHR 0x27] @ '' or '' @
                                   [CHR 0x27] @ ''float'' @ [CHR 0x27] @ '' '' @
                                   ''but got: '' @ [CHR 0x27] @ type_name al @ [CHR 0x27]])
            else if py_lt al 0 \<or> py_gt al 1
            then Some (ValueError [''Invalid alpha data value. '' @
                                   ''Expected somewhere in range [0, 1] '' @
                                   ''but got a value of:'', py_str L al])
            else None)
      else None)"

definition test_2samp ::
  "pylib \<Rightarrow> real list \<Rightarrow> real list \<Rightarrow> string \<Rightarrow> bool \<Rightarrow> string \<Rightarrow> error + pyfloat \<times> pyfloat" where
  "test_2samp L xs ys tt ev alt =
     (case (if tt = ''ind'' then stats_ttest_ind L xs ys ev else stats_ttest_rel L xs ys) of
        Inl e \<Rightarrow> Inl e
      | Inr (t, p) \<Rightarrow> Inr (t, if alt \<noteq> ''unequal'' then fl_div p 2 else p))"

definition ttest_2samp_init ::
  "pylib \<Rightarrow> real list \<Rightarrow> real list \<Rightarrow> string \<Rightarrow> bool \<Rightarrow> string \<Rightarrow> pyval
     \<Rightarrow> error + ttest_2samp" where
  "ttest_2samp_init L xs ys tt ev alt al =
     (case check_params_2samp L tt alt al of
        Some e \<Rightarrow> Inl e
      | None \<Rightarrow>
          (case test_2samp L xs ys tt ev alt of
             Inl e \<Rightarrow> Inl e
           | Inr (t, p) \<Rightarrow>
               Inr \<lparr>ttest_2samp.a = xs, b = ys, test_type = tt, equal_var = ev,
                    alt_hyp = alt, alpha = al, t_stat = t, p_val = p\<rparr>))"

text \<open>The assumptions text of \<open>summary\<close> and the assumptions list of \<open>to_file\<close>.\<close>

definition summary_assumptions :: "ttest_2samp \<Rightarrow> string" where
  "summary_assumptions s =
     (if test_type s = ''ind''
      then (let assumptions = ''   Independent Samples''
            in if equal_var s then assumptions @ [CHR 0x0A] @ ''   Equal Variances''
               else assumptions @ [CHR 0x0A, CHR 0x09] @ ''Equal Variances'')
      else ''Related Samples'')"

definition to_file_assumptions :: "ttest_2samp \<Rightarrow> string list" where
  "to_file_assumptions s =
     (if test_type s = ''ind''
      then (let assumptions = [''Independent Samples'']
            in if equal_var s then assumptions @ [''Equal Variances'']
               else assumptions @ [''Equal Variances''])
      else [''Related Samples''])"

definition ttest_2samp_summary :: "pylib \<Rightarrow> ttest_2samp \<Rightarrow> string list" where
  "ttest_2samp_summary L s =
     (let size = length (ttest_2samp.a s);
          assumptions = summary_assumptions s;
          (alternative, sided) =
            (if ttest_2samp.alt_hyp s = ''unequal''
             then (''Mean 1 != Mean 2'', ''two-sided'')
             else (if ttest_2samp.alt_hyp s = ''less''
                   then ''Mean 1 < Mean 2''
                   else ''Mean 1 > Mean 2'', ''one-sided''))
      in [[CHR 0x0A] @ rule_line,
          ''Significance Test: T-Test ('' @ sided @ '')'',
          ''Date: '' @ strftime L ''%a, %d %b %Y'',
          ''Time: '' @ strftime L ''%H:%M:%S'',
          [CHR 0x0A] @ ''Assumptions: '',
          assumptions,
          [CHR 0x0A] @ ''Data Size: '' @ str_nat size,
          [CHR 0x0A] @ ''Null Hypothesis:        Mean 1 == Mean 2'',
          ''Alternative Hypothesis: '' @ alternative,
          [CHR 0x0A] @ ''T-Statistic: '' @ str_float L (ttest_2samp.t_stat s),
          ''P-Value: '' @ str_float L (ttest_2samp.p_val s),
          ''Alpha: '' @ py_str L (ttest_2samp.alpha s)] @
         (if keep_null (ttest_2samp.alpha s) (ttest_2samp.p_val s)
          then [NULL_label @ ''No'', ALT_label @ ''No'']
          else [NULL_label @ ''Yes'',
                if direction_holds (ttest_2samp.alt_hyp s) (ttest_2samp.t_stat s)
                then ALT_label @ ''Yes'' else ALT_label @ ''No'']) @
         [rule_line])"

definition ttest_2samp_to_file ::
  "pylib \<Rightarrow> ttest_2samp \<Rightarrow> string option \<Rightarrow> string \<times> (string \<rightharpoonup> json)" where
  "ttest_2samp_to_file L s filename =
     (let size = length (ttest_2samp.a s);
          assumptions = to_file_assumptions s;
          (alternative, sided) =
            (if ttest_2samp.alt_hyp s = ''unequal''
             then (''Mean 1 != Mean 2'', ''two-sided'')
             else (if ttest_2samp.alt_hyp s = ''less''
                   then ''Mean 1 < Mean 2''
                   else ''Mean 1 > Mean 2'', ''one-sided''));
          data = Map.empty
            (''sig_test'' \<mapsto> JStr (''T-Test ('' @ sided @ '')''),
             ''date'' \<mapsto> JStr (strftime L ''%a, %d %b %Y''),
             ''time'' \<mapsto> JStr (strftime L ''%H:%M:%S''),
             ''assumptions'' \<mapsto> JList (map JStr assumptions),
             ''data_size'' \<mapsto> JInt (int size),
             ''null_hyp'' \<mapsto> JStr ''Mean 1 == Mean 2'',
             ''alt_hyp'' \<mapsto> JStr alternative,
             ''t_stat'' \<mapsto> JFloat (ttest_2samp.t_stat s),
             ''p_val'' \<mapsto> JFloat (ttest_2samp.p_val s));
          data = (if keep_null (ttest_2samp.alpha s) (ttest_2samp.p_val s)
                  then data(''reject_null'' \<mapsto> JBool False, ''accept_alt'' \<mapsto> JBool False)
                  else (let data = data(''reject_null'' \<mapsto> JBool True)
                        in if direction_holds (ttest_2samp.alt_hyp s) (ttest_2samp.t_stat s)
                           then data(''accept_alt'' \<mapsto> JBool True)
                           else data(''accept_alt'' \<mapsto> JBool False)));
          filename = (case filename of
                        None \<Rightarrow> strftime L ''%a_%d_%b_%Y_%H_%M_%S.json''
                      | Some f \<Rightarrow> if f = [] then strftime L ''%a_%d_%b_%Y_%H_%M_%S.json'' else f)
      in (filename, data))"

section \<open>wrappers/ols.py\<close>

subsection \<open>Arrays\<close>

text \<open>
  The predictor input is a one-dimensional array or a two-dimensional one, which carries
  its number of columns (an array may have columns and no rows). Rows all have that
  length.
\<close>

datatype ndarray = Vec "real list" | Mat nat "real list list"

fun shape :: "ndarray \<Rightarrow> nat list" where
  "shape (Vec v) = [length v]"
| "shape (Mat k rows) = [length rows, k]"

text \<open>\<open>c_[ones(x.shape[0]), x]\<close>: a leading column of ones.\<close>

fun add_ones :: "ndarray \<Rightarrow> ndarray" where
  "add_ones (Vec v) = Mat 2 (map (\<lambda>xi. [1, xi]) v)"
| "add_ones (Mat k rows) = Mat (Suc k) (map (\<lambda>r. 1 # r) rows)"

text \<open>\<open>dot\<close> on two vectors, \<open>x.T\<close> as the list of columns, and the products built from them.\<close>

definition dot :: "real list \<Rightarrow> real list \<Rightarrow> real" where
  "dot u v = sum_list (map2 (*) u v)"

definition columns :: "nat \<Rightarrow> real list list \<Rightarrow> real list list" where
  "columns k rows = map (\<lambda>j. map (\<lambda>r. r ! j) rows) [0..<k]"

definition gram :: "nat \<Rightarrow> real list list \<Rightarrow> real list list" where
  "gram k rows = map (\<lambda>ci. map (\<lambda>cj. dot ci cj) (columns k rows)) (columns k rows)"

definition mat_vec :: "real list list \<Rightarrow> real list \<Rightarrow> real list" where
  "mat_vec m v = map (\<lambda>r. dot r v) m"

definition diagonal :: "real list list \<Rightarrow> real list" where
  "diagonal m = map (\<lambda>i. m ! i ! i) [0..<length m]"

text \<open>\<open>v.var()\<close>: the mean squared deviation from the mean.\<close>

definition var :: "real list \<Rightarrow> real" where
  "var v = (let n = real (length v); m = sum_list v / n
            in sum_list (map (\<lambda>vi. (vi - m)\<^sup>2) v) / n)"

text \<open>\<open>diff(e, 1)\<close>: the first differences.\<close>

definition diff :: "real list \<Rightarrow> real list" where
  "diff e = map2 (\<lambda>nxt cur. nxt - cur) (tl e) e"

subsection \<open>Singular matrices and an exact inverse\<close>

text \<open>
  The determinant by expansion along the first row. A square matrix is singular when its
  determinant is zero. The code never computes it: it is here to say which designs
  are singular, and for the exact inverse below.
\<close>

definition drop_col :: "nat \<Rightarrow> real list \<Rightarrow> real list" where
  "drop_col j r = take j r @ drop (Suc j) r"

function det :: "real list list \<Rightarrow> real" where
  "det [] = 1"
| "det (r # rs) =
     sum_list (map (\<lambda>j. (- 1) ^ j * r ! j * det (map (drop_col j) rs)) [0..<length r])"
  by pat_completeness auto
termination
  by (relation "measure length") auto

definition minor :: "real list list \<Rightarrow> nat \<Rightarrow> nat \<Rightarrow> real list list" where
  "minor m i j = map (drop_col j) (take i m @ drop (Suc i) m)"

text \<open>
  The inverse as the library documents it: the inverse of a square matrix, or
  \<open>LinAlgError\<close> when the matrix is singular. Here in exact arithmetic, by cofactors.
\<close>

definition exact_inv :: "real list list \<Rightarrow> error + real list list" where
  "exact_inv m =
     (if det m = 0 then Inl (LinAlgError ''singular matrix'')
      else Inr (map (\<lambda>i. map (\<lambda>j. (- 1) ^ (i + j) * det (minor m j i) / det m)
                              [0..<length m]) [0..<length m]))"

subsection \<open>The regression object\<close>

text \<open>
  An instance is its attribute dictionary: attributes come into being when assigned,
  and reading one that was never assigned raises \<open>AttributeError\<close>.
\<close>

datatype val =
    VInt int | VReal real | VVec "real list" | VMat "real list list"
  | VArr ndarray | VStr string | VNames "string list"

type_synonym obj = "string \<rightharpoonup> val"

definition getattr :: "obj \<Rightarrow> string \<Rightarrow> error + val" where
  "getattr self n = (case self n of None \<Rightarrow> Inl (AttributeError n) | Some v \<Rightarrow> Inr v)"

definition singular_msg :: string where
  "singular_msg =
     [CHR 0x0A, CHR 0x0A] @ ''Your matrix of independent observations is singular!'' @
     [CHR 0x0A] @ ''Unfortunately, that means we cannot compute an OLS'' @
     [CHR 0x0A] @ ''model for your provided data. Terminating immediately.''"

text \<open>
  \<open>estimate\<close>. The \<open>try\<close> block inverts the Gram matrix, then multiplies by \<open>y\<close>;
  only \<open>LinAlgError\<close> is caught, and raised again with the module's message. The
  product with \<open>y\<close> raises \<open>ValueError\<close> when the lengths differ. Float arithmetic is
  real arithmetic here; where NumPy would yield an infinity or NaN (a division by zero
  on floats, the root of a negative number) it does not raise, and neither does the
  model. The quotient in \<open>R2adj\<close> is between two Python integers and does raise.
\<close>

definition estimate :: "pylib \<Rightarrow> obj \<Rightarrow> error + obj" where
  "estimate L self =
     (case (self ''x'', self ''y'') of
        (Some (VArr (Mat k rows)), Some (VVec y)) \<Rightarrow>
          (case linalg_inv L (gram k rows) of
             Inl (LinAlgError m) \<Rightarrow> Inl (LinAlgError singular_msg)
           | Inl err \<Rightarrow> Inl err
           | Inr inv_xx \<Rightarrow>
               if length y \<noteq> length rows then Inl (ValueError [''shapes not aligned''])
               else
                 (let self = self(''inv_xx'' \<mapsto> VMat inv_xx);
                      xy = mat_vec (columns k rows) y;
                      b = mat_vec inv_xx xy;
                      self = self(''b'' \<mapsto> VVec b);
                      nobs = int (length y);
                      ncoef = int k;
                      df_e = nobs - ncoef;
                      df_r = ncoef - 1;
                      self = self(''nobs'' \<mapsto> VInt nobs, ''ncoef'' \<mapsto> VInt ncoef,
                                  ''df_e'' \<mapsto> VInt df_e, ''df_r'' \<mapsto> VInt df_r);
                      e = map2 (\<lambda>yi fit. yi - fit) y (mat_vec rows b);
                      sse = dot e e / of_int df_e;
                      se = map sqrt (diagonal (map (map (\<lambda>c. sse * c)) inv_xx));
                      t = map2 (\<lambda>bi sei. bi / sei) b se;
                      p = map (\<lambda>ti. (1 - stats_t_cdf L \<bar>ti\<bar> df_e) * 2) t;
                      self = self(''e'' \<mapsto> VVec e, ''sse'' \<mapsto> VReal sse, ''se'' \<mapsto> VVec se,
                                  ''t'' \<mapsto> VVec t, ''p'' \<mapsto> VVec p);
                      R2 = 1 - var e / var y;
                      self = self(''R2'' \<mapsto> VReal R2)
                  in if nobs - ncoef = 0 then Inl ZeroDivisionError
                     else
                       (let R2adj = 1 - (1 - R2) * (of_int (nobs - 1) / of_int (nobs - ncoef));
                            F = (R2 / of_int df_r) / ((1 - R2) / of_int df_e);
                            Fpv = 1 - stats_f_cdf L F df_r df_e
                        in Inr (self(''R2adj'' \<mapsto> VReal R2adj, ''F'' \<mapsto> VReal F,
                                     ''Fpv'' \<mapsto> VReal Fpv)))))
      | _ \<Rightarrow> Inl (AttributeError ''x''))"

text \<open>
  \<open>__init__\<close>. \<open>not x_varnm\<close> holds for \<open>None\<close> and for the empty list. The names are
  stored before \<open>estimate\<close> runs.
\<close>

definition default_names :: "ndarray \<Rightarrow> string list" where
  "default_names x =
     (if length (shape x) = 1 \<or> shape x ! 1 = 1 then [''const'', ''x'']
      else [''const''] @ map (\<lambda>i. ''x'' @ str_nat i) [1..<shape x ! 1 + 1])"

definition init_names :: "ndarray \<Rightarrow> string list option \<Rightarrow> string list" where
  "init_names x x_varnm =
     (case x_varnm of
        None \<Rightarrow> default_names x
      | Some names \<Rightarrow> if names = [] then default_names x else [''const''] @ names)"

definition ols_init ::
  "pylib \<Rightarrow> ndarray \<Rightarrow> real list \<Rightarrow> string list option \<Rightarrow> string \<Rightarrow> error + obj" where
  "ols_init L x y x_varnm y_varnm =
     (let self = Map.empty(''x'' \<mapsto> VArr (add_ones x));
          self = self(''x_varnm'' \<mapsto> VNames (init_names x x_varnm));
          self = self(''y'' \<mapsto> VVec y, ''y_varnm'' \<mapsto> VStr y_varnm)
      in estimate L self)"

subsection \<open>The diagnostics\<close>

text \<open>
  Each method returns its value, or the exception it raises, together with the instance
  as the call leaves it. None of the four assigns to an attribute.
\<close>

definition dw :: "obj \<Rightarrow> (error + real) \<times> obj" where
  "dw self =
     (case self ''e'' of
        Some (VVec e) \<Rightarrow> (let de = diff e in (Inr (dot de de / dot e e), self))
      | _ \<Rightarrow> (Inl (AttributeError ''e''), self))"

definition omni :: "pylib \<Rightarrow> obj \<Rightarrow> (error + pyfloat \<times> pyfloat) \<times> obj" where
  "omni L self =
     (case self ''e'' of
        Some (VVec e) \<Rightarrow>
          (case stats_normaltest L e of
             Inr r \<Rightarrow> (Inr r, self)
           | Inl (ValueError m) \<Rightarrow> (Inr (NaN, NaN), self)
           | Inl err \<Rightarrow> (Inl err, self))
      | _ \<Rightarrow> (Inl (AttributeError ''e''), self))"

definition JB :: "pylib \<Rightarrow> obj \<Rightarrow> (error + real \<times> real \<times> real \<times> real) \<times> obj" where
  "JB L self =
     (case (self ''e'', self ''nobs'') of
        (Some (VVec e), Some (VInt nobs)) \<Rightarrow>
          (let skew = stats_skew L e;
               kurtosis = 3 + stats_kurtosis L e;
               jb = (of_int nobs / 6) * (skew\<^sup>2 + (1 / 4) * (kurtosis - 3)\<^sup>2);
               jbpv = 1 - stats_chi2_cdf L jb 2
           in (Inr (jb, jbpv, skew, kurtosis), self))
      | (Some (VVec e), _) \<Rightarrow> (Inl (AttributeError ''nobs''), self)
      | _ \<Rightarrow> (Inl (AttributeError ''e''), self))"

definition ll :: "obj \<Rightarrow> (error + real \<times> real \<times> real) \<times> obj" where
  "ll self =
     (case (self ''nobs'', self ''e'', self ''ncoef'') of
        (Some (VInt nobs), Some (VVec e), Some (VInt ncoef)) \<Rightarrow>
          (let l = - (of_int nobs / 2) * (1 + ln (2 * pi)) -
                   (of_int nobs / 2) * ln (dot e e / of_int nobs)
           in if nobs = 0 then (Inl ZeroDivisionError, self)
              else
                (let aic = - 2 * l / of_int nobs + (of_int (2 * ncoef) / of_int nobs);
                     bic = - 2 * l / of_int nobs + (of_int ncoef * ln (of_int nobs)) / of_int nobs
                 in (Inr (l, aic, bic), self)))
      | (Some (VInt nobs), Some (VVec e), _) \<Rightarrow> (Inl (AttributeError ''ncoef''), self)
      | (Some (VInt nobs), _, _) \<Rightarrow> (Inl (AttributeError ''e''), self)
      | _ \<Rightarrow> (Inl (AttributeError ''nobs''), self))"

subsection \<open>The export\<close>

text \<open>The value of an attribute as \<open>json.dump\<close> receives it.\<close>

fun val_json :: "val \<Rightarrow> json" where
  "val_json (VInt i) = JInt i"
| "val_json (VReal r) = JFloat (Float r)"
| "val_json (VVec v) = JList (map (\<lambda>r. JFloat (Float r)) v)"
| "val_json (VMat m) = JList (map (\<lambda>row. JList (map (\<lambda>r. JFloat (Float r)) row)) m)"
| "val_json (VArr (Vec v)) = JList (map (\<lambda>r. JFloat (Float r)) v)"
| "val_json (VArr (Mat k m)) = JList (map (\<lambda>row. JList (map (\<lambda>r. JFloat (Float r)) row)) m)"
| "val_json (VStr s) = JStr s"
| "val_json (VNames ns) = JList (map JStr ns)"

text \<open>\<open>v[i]\<close> on an attribute that holds a vector.\<close>

definition item :: "obj \<Rightarrow> string \<Rightarrow> nat \<Rightarrow> error + json" where
  "item self n i =
     (case getattr self n of
        Inl err \<Rightarrow> Inl err
      | Inr (VVec v) \<Rightarrow> if i < length v then Inr (JFloat (Float (v ! i))) else Inl IndexError
      | Inr _ \<Rightarrow> Inl (OtherError ''not subscriptable''))"

text \<open>One pass of the loop over the names: the entry for name \<open>i\<close>.\<close>

definition estimate_entry :: "obj \<Rightarrow> nat \<Rightarrow> error + json" where
  "estimate_entry self i =
     and_then (item self ''b'' i) (\<lambda>bi.
     and_then (item self ''se'' i) (\<lambda>sei.
     and_then (item self ''t'' i) (\<lambda>ti.
     and_then (item self ''p'' i) (\<lambda>pv.
       Inr (JObj [(''estimate'', bi), (''std_error'', sei), (''t_stat'', ti),
                  (''p_val'', pv)])))))"

fun estimates_loop ::
  "obj \<Rightarrow> string list \<Rightarrow> nat \<Rightarrow> (string \<times> json) list \<Rightarrow> error + (string \<times> json) list" where
  "estimates_loop self [] i estimates = Inr estimates"
| "estimates_loop self (name # names) i estimates =
     (case estimate_entry self i of
        Inl err \<Rightarrow> Inl err
      | Inr entry \<Rightarrow> estimates_loop self names (Suc i) (AList.update name entry estimates))"

text \<open>
  \<open>to_file\<close>: the three diagnostics first, then the dictionary, entry by entry in the
  order of the source, then the file name and the dictionary handed to \<open>json.dump\<close>.
\<close>

definition names_of :: "val \<Rightarrow> error + string list" where
  "names_of v = (case v of VNames names \<Rightarrow> Inr names
                 | _ \<Rightarrow> Inl (OtherError ''x_varnm is not a list''))"

definition ols_to_file ::
  "pylib \<Rightarrow> obj \<Rightarrow> string option \<Rightarrow> error + string \<times> (string \<rightharpoonup> json)" where
  "ols_to_file L self filename =
     and_then (fst (ll self)) (\<lambda>(l, aic, bic).
     and_then (fst (JB L self)) (\<lambda>(jb, jbpv, skew, kurtosis).
     and_then (fst (omni L self)) (\<lambda>(om, ompv).
     and_then (getattr self ''y'') (\<lambda>y.
     and_then (getattr self ''nobs'') (\<lambda>nobs.
     and_then (getattr self ''ncoefs'') (\<lambda>ncoefs.
     and_then (getattr self ''x_varnm'') (\<lambda>x_varnm.
     and_then (names_of x_varnm) (\<lambda>names.
     and_then (estimates_loop self names 0 []) (\<lambda>estimates.
     and_then (getattr self ''R2'') (\<lambda>r2.
     and_then (getattr self ''R2adj'') (\<lambda>r2adj.
     and_then (fst (dw self)) (\<lambda>d.
     and_then (getattr self ''F'') (\<lambda>f.
     and_then (getattr self ''Fpv'') (\<lambda>fpv.
       Inr (case filename of
              None \<Rightarrow> strftime L ''%a_%d_%b_%Y_%H_%M_%S.json''
            | Some fn \<Rightarrow> if fn = [] then strftime L ''%a_%d_%b_%Y_%H_%M_%S.json'' else fn,
            Map.empty
              (''dependent_var'' \<mapsto> val_json y,
               ''method'' \<mapsto> JStr ''least squares'',
               ''date'' \<mapsto> JStr (strftime L ''%a, %d %b %Y''),
               ''time'' \<mapsto> JStr (strftime L ''%H:%M:%S''),
               ''obs_count'' \<mapsto> val_json nobs,
               ''var_count'' \<mapsto> val_json ncoefs,
               ''estimates'' \<mapsto> JObj estimates,
               ''r_squared'' \<mapsto> val_json r2,
               ''r_squared_adj'' \<mapsto> val_json r2adj,
               ''durbin_watson'' \<mapsto> JFloat (Float d),
               ''omnibus_stat'' \<mapsto> JFloat om,
               ''omnibus_p_val'' \<mapsto> JFloat ompv,
               ''f_stat'' \<mapsto> val_json f,
               ''f_stat_p_val'' \<mapsto> val_json fpv,
               ''jb_stat'' \<mapsto> JFloat (Float jb),
               ''jb_stat_p_val'' \<mapsto> JFloat (Float jbpv),
               ''skew'' \<mapsto> JFloat (Float skew),
               ''kurtosis'' \<mapsto> JFloat (Float kurtosis),
               ''aic_stat'' \<mapsto> JFloat (Float aic),
               ''bic_stat'' \<mapsto> JFloat (Float bic),
               ''log_likelihood'' \<mapsto> JFloat (Float l)))))))))))))))))"

section \<open>A library instance for the examples\<close>

text \<open>
  The t-tests return, on every input, the reference values of \<open>tests/test_ttest.py\<close>
  (for the one-sample test: those of the sample 1, ..., 9 against the mean 4.5); the
  inverse is the exact one; the omnibus test refuses fewer than eight observations. The
  distribution functions and the moments are constants: no statement below depends on
  their values.
\<close>

definition ref_lib :: pylib where
  "ref_lib =
     \<lparr>stats_ttest_1samp = (\<lambda>xs pm. Inr (Float 0.54772255750516607, Float 0.59882713669728904)),
      stats_ttest_ind = (\<lambda>xs ys ev.
         Inr (Float 0.29359890626535035,
              Float (if ev then 0.76912545487694084 else 0.76912546718732111))),
      stats_ttest_rel = (\<lambda>xs ys. Inr (Float 0.3015015987751255, Float 0.76315763376265355)),
      str_float = (\<lambda>f. ''float''),
      strftime = (\<lambda>fmt. fmt),
      linalg_inv = exact_inv,
      stats_t_cdf = (\<lambda>x df. 1 / 2),
      stats_f_cdf = (\<lambda>x df1 df2. 1 / 2),
      stats_chi2_cdf = (\<lambda>x df. 1 / 2),
      stats_skew = (\<lambda>e. 0),
      stats_kurtosis = (\<lambda>e. 0),
      stats_normaltest = (\<lambda>e.
         if length e < 8
         then Inl (ValueError [''skewtest is not valid with less than 8 samples''])
         else Inr (Float 0, Float 1))\<rparr>"

text \<open>The sample of the one-sample tests in \<open>tests/test_ttest.py\<close>.\<close>

definition sample9 :: "real list" where
  "sample9 = [1, 2, 3, 4, 5, 6, 7, 8, 9]"

text \<open>
  The same library at an input where the p-value underflows: for the sample above and a
  population mean of \<open>-1e60\<close> the t-statistic is of the order of \<open>1e60\<close> and the
  two-sided p-value, of the order of \<open>1e-480\<close>, is the float \<open>0.0\<close>.
\<close>

definition underflow_lib :: pylib where
  "underflow_lib = ref_lib\<lparr>stats_ttest_1samp := (\<lambda>xs pm. Inr (Float (10 ^ 60), Float 0))\<rparr>"

section \<open>Vocabulary of the statements\<close>

text \<open>The word printed after a label of the decision.\<close>

definition yes_no :: "bool \<Rightarrow> string" where
  "yes_no c = (if c then ''Yes'' else ''No'')"

text \<open>The attributes that \<open>estimate\<close> assigns.\<close>

definition estimate_attrs :: "string list" where
  "estimate_attrs = [''inv_xx'', ''b'', ''nobs'', ''ncoef'', ''df_e'', ''df_r'', ''e'', ''sse'',
                     ''se'', ''t'', ''p'', ''R2'', ''R2adj'', ''F'', ''Fpv'']"

text \<open>The Gram matrix of the design matrix with its column of ones.\<close>

definition design_gram :: "ndarray \<Rightarrow> real list list" where
  "design_gram x = (case add_ones x of Mat k rows \<Rightarrow> gram k rows | Vec v \<Rightarrow> [])"

text \<open>
  What \<open>omni\<close> expects of \<open>stats.normaltest\<close>, as its comment says: \<open>ValueError\<close> on
  fewer than eight observations, a statistic and a p-value otherwise.
\<close>

definition normaltest_contract :: "pylib \<Rightarrow> bool" where
  "normaltest_contract L =
     (\<forall>e. if length e < 8 then (\<exists>m. stats_normaltest L e = Inl (ValueError m))
          else (\<exists>r. stats_normaltest L e = Inr r))"

text \<open>The stored fields of a regression result.\<close>

definition result_fields :: "string list" where
  "result_fields = [''b'', ''e'', ''se'', ''t'', ''p'', ''R2'', ''R2adj'', ''F'', ''Fpv'',
                    ''nobs'', ''ncoef'', ''df_e'', ''df_r'']"

text \<open>The instance that \<open>__init__\<close> hands to \<open>estimate\<close>.\<close>

definition init_state :: "ndarray \<Rightarrow> real list \<Rightarrow> string list option \<Rightarrow> string \<Rightarrow> obj" where
  "init_state x y x_varnm y_varnm =
     Map.empty(''x'' \<mapsto> VArr (add_ones x), ''x_varnm'' \<mapsto> VNames (init_names x x_varnm),
               ''y'' \<mapsto> VVec y, ''y_varnm'' \<mapsto> VStr y_varnm)"

text \<open>Small data sets for the examples: one predictor, and two predictors.\<close>

definition x3 :: ndarray where
  "x3 = Vec [1, 2, 3]"

definition y3 :: "real list" where
  "y3 = [2, 4, 7]"

definition x8 :: ndarray where
  "x8 = Vec [1, 2, 3, 4, 5, 6, 7, 8]"

definition y8 :: "real list" where
  "y8 = [2, 4, 7, 8, 9, 12, 15, 16]"

definition x42 :: ndarray where
  "x42 = Mat 2 [[1, 0], [0, 1], [1, 1], [2, 0]]"

definition y4 :: "real list" where
  "y4 = [1, 2, 4, 3]"




section \<open>The t-tests: checked parameters\<close>

lemma check1_alt:
  "check_params_1samp L alt al = None \<Longrightarrow>
     alt = ''less'' \<or> alt = ''unequal'' \<or> alt = ''greater''"
  by (auto simp: check_params_1samp_def split: if_splits)

lemma check2_alt:
  "check_params_2samp L tt alt al = None \<Longrightarrow>
     alt = ''less'' \<or> alt = ''unequal'' \<or> alt = ''greater''"
  by (auto simp: check_params_2samp_def split: if_splits)

section \<open>The t-tests: the stored p-value\<close>

text \<open>
  Claim C3. For every valid construction of a one-sample or two-sample test, the stored
  t-statistic is the library's; the stored p-value is half of the library's two-sided
  p-value when the alternative is \<open>greater\<close> or \<open>less\<close>, whatever the sign of the
  t-statistic, and is the library's p-value unchanged when the alternative is
  \<open>unequal\<close>. (Halving is exact on floats except where the half underflows.)
\<close>

theorem p_value_halving:
  "(check_params_1samp L alt al = None \<and> stats_ttest_1samp L xs pm = Inr (t, p) \<longrightarrow>
      (\<exists>s. ttest_1samp_init L xs pm alt al = Inr s \<and> ttest_1samp.t_stat s = t \<and>
           ttest_1samp.p_val s =
             (if alt = ''greater'' \<or> alt = ''less'' then fl_div p 2 else p) \<and>
           (alt = ''unequal'' \<longrightarrow> ttest_1samp.p_val s = p))) \<and>
   (check_params_2samp L tt alt2 al2 = None \<and>
    (if tt = ''ind'' then stats_ttest_ind L ys zs ev else stats_ttest_rel L ys zs) =
      Inr (t2, p2) \<longrightarrow>
      (\<exists>s. ttest_2samp_init L ys zs tt ev alt2 al2 = Inr s \<and> ttest_2samp.t_stat s = t2 \<and>
           ttest_2samp.p_val s =
             (if alt2 = ''greater'' \<or> alt2 = ''less'' then fl_div p2 2 else p2) \<and>
           (alt2 = ''unequal'' \<longrightarrow> ttest_2samp.p_val s = p2)))"
proof (intro conjI impI)
  assume h: "check_params_1samp L alt al = None \<and> stats_ttest_1samp L xs pm = Inr (t, p)"
  then have "alt = ''less'' \<or> alt = ''unequal'' \<or> alt = ''greater''"
    using check1_alt by blast
  with h show "\<exists>s. ttest_1samp_init L xs pm alt al = Inr s \<and> ttest_1samp.t_stat s = t \<and>
           ttest_1samp.p_val s =
             (if alt = ''greater'' \<or> alt = ''less'' then fl_div p 2 else p) \<and>
           (alt = ''unequal'' \<longrightarrow> ttest_1samp.p_val s = p)"
    by (auto simp: ttest_1samp_init_def test_1samp_def)
next
  assume h: "check_params_2samp L tt alt2 al2 = None \<and>
    (if tt = ''ind'' then stats_ttest_ind L ys zs ev else stats_ttest_rel L ys zs) =
      Inr (t2, p2)"
  then have "alt2 = ''less'' \<or> alt2 = ''unequal'' \<or> alt2 = ''greater''"
    using check2_alt by blast
  with h show "\<exists>s. ttest_2samp_init L ys zs tt ev alt2 al2 = Inr s \<and>
           ttest_2samp.t_stat s = t2 \<and>
           ttest_2samp.p_val s =
             (if alt2 = ''greater'' \<or> alt2 = ''less'' then fl_div p2 2 else p2) \<and>
           (alt2 = ''unequal'' \<longrightarrow> ttest_2samp.p_val s = p2)"
    by (auto simp: ttest_2samp_init_def test_2samp_def)
qed

theorem p_value_halving_witness:
  "check_params_1samp ref_lib ''greater'' (PFloat (Float 0.5)) = None \<and>
   stats_ttest_1samp ref_lib sample9 (PFloat (Float 4.5)) =
     Inr (Float 0.54772255750516607, Float 0.59882713669728904) \<and>
   ttest_1samp.p_val (projr (ttest_1samp_init ref_lib sample9 (PFloat (Float 4.5)) ''greater''
                               (PFloat (Float 0.5)))) = Float (0.59882713669728904 / 2) \<and>
   check_params_2samp ref_lib ''ind'' ''less'' (PFloat (Float 0.5)) = None \<and>
   stats_ttest_ind ref_lib sample9 sample9 False =
     Inr (Float 0.29359890626535035, Float 0.76912546718732111) \<and>
   ttest_2samp.p_val (projr (ttest_2samp_init ref_lib sample9 sample9 ''ind'' False ''less''
                               (PFloat (Float 0.5)))) = Float (0.76912546718732111 / 2)"
proof -
  have h1: "check_params_1samp ref_lib ''greater'' (PFloat (Float 0.5)) = None \<and>
            stats_ttest_1samp ref_lib sample9 (PFloat (Float 4.5)) =
              Inr (Float 0.54772255750516607, Float 0.59882713669728904)"
    by (simp add: check_params_1samp_def ref_lib_def py_lt_def py_gt_def)
  have h2: "check_params_2samp ref_lib ''ind'' ''less'' (PFloat (Float 0.5)) = None \<and>
            (if ''ind'' = ''ind'' then stats_ttest_ind ref_lib sample9 sample9 False
             else stats_ttest_rel ref_lib sample9 sample9) =
              Inr (Float 0.29359890626535035, Float 0.76912546718732111)"
    by (simp add: check_params_2samp_def ref_lib_def py_lt_def py_gt_def)
  from p_value_halving[of ref_lib "''greater''" "PFloat (Float 0.5)" sample9
      "PFloat (Float 4.5)" "Float 0.54772255750516607" "Float 0.59882713669728904"
      "''ind''" "''less''" "PFloat (Float 0.5)" sample9 sample9 False
      "Float 0.29359890626535035" "Float 0.76912546718732111"] h1 h2
  obtain s1 s2 where
    "ttest_1samp_init ref_lib sample9 (PFloat (Float 4.5)) ''greater'' (PFloat (Float 0.5)) =
       Inr s1"
    "ttest_1samp.p_val s1 = Float (0.59882713669728904 / 2)"
    "ttest_2samp_init ref_lib sample9 sample9 ''ind'' False ''less'' (PFloat (Float 0.5)) =
       Inr s2"
    "ttest_2samp.p_val s2 = Float (0.76912546718732111 / 2)"
    by auto
  with h1 h2 show ?thesis by simp
qed

lemma check1_alpha:
  "check_params_1samp L alt al = None \<Longrightarrow> truthy al \<Longrightarrow>
     (type_name al = ''int'' \<or> type_name al = ''float'') \<and> \<not> py_lt al 0 \<and> \<not> py_gt al 1"
  by (auto simp: check_params_1samp_def split: if_splits)

lemma check2_alpha:
  "check_params_2samp L tt alt al = None \<Longrightarrow> truthy al \<Longrightarrow>
     (type_name al = ''int'' \<or> type_name al = ''float'') \<and> \<not> py_lt al 0 \<and> \<not> py_gt al 1"
  by (auto simp: check_params_2samp_def split: if_splits)

lemma init1_fields:
  "ttest_1samp_init L xs pm alt al = Inr s \<Longrightarrow>
     check_params_1samp L alt al = None \<and> ttest_1samp.alt_hyp s = alt \<and> ttest_1samp.alpha s = al"
  by (auto simp: ttest_1samp_init_def split: option.splits sum.splits)

lemma init2_fields:
  "ttest_2samp_init L xs ys tt ev alt al = Inr s \<Longrightarrow>
     check_params_2samp L tt alt al = None \<and> ttest_2samp.alt_hyp s = alt \<and> ttest_2samp.alpha s = al"
  by (auto simp: ttest_2samp_init_def split: option.splits sum.splits)

lemma keep_null_iff:
  assumes ok: "truthy al \<longrightarrow> (type_name al = ''int'' \<or> type_name al = ''float'') \<and> \<not> py_lt al 0 \<and> \<not> py_gt al 1"
    and al: "al \<noteq> PFloat NaN"
  shows "\<not> keep_null al (Float q) \<longleftrightarrow>
           (case num_of al of Some (Float x) \<Rightarrow> 0 < x \<and> q < x \<and> q \<noteq> 0 | _ \<Rightarrow> False)"
proof (cases al)
  case PNone then show ?thesis by (simp add: keep_null_def)
next
  case (PBool b) with ok show ?thesis by (cases b) (auto simp: keep_null_def)
next
  case (PInt i) with ok show ?thesis
    by (auto simp: keep_null_def py_ge_def py_lt_def py_gt_def)
next
  case (PFloat f)
  with al obtain x where f: "f = Float x" by (cases f) auto
  with PFloat ok show ?thesis
    by (auto simp: keep_null_def py_ge_def py_lt_def py_gt_def)
next
  case (PStr s) with ok show ?thesis by (auto simp: keep_null_def)
qed

lemma to_file1_decision:
  "snd (ttest_1samp_to_file L s fn) ''reject_null'' =
      Some (JBool (\<not> keep_null (ttest_1samp.alpha s) (ttest_1samp.p_val s))) \<and>
   snd (ttest_1samp_to_file L s fn) ''accept_alt'' =
      Some (JBool (\<not> keep_null (ttest_1samp.alpha s) (ttest_1samp.p_val s) \<and>
                   direction_holds (ttest_1samp.alt_hyp s) (ttest_1samp.t_stat s)))"
  by (simp add: ttest_1samp_to_file_def Let_def split: prod.splits)

lemma to_file2_decision:
  "snd (ttest_2samp_to_file L s fn) ''reject_null'' =
      Some (JBool (\<not> keep_null (ttest_2samp.alpha s) (ttest_2samp.p_val s))) \<and>
   snd (ttest_2samp_to_file L s fn) ''accept_alt'' =
      Some (JBool (\<not> keep_null (ttest_2samp.alpha s) (ttest_2samp.p_val s) \<and>
                   direction_holds (ttest_2samp.alt_hyp s) (ttest_2samp.t_stat s)))"
  by (simp add: ttest_2samp_to_file_def Let_def split: prod.splits)

lemma summary1_decision:
  "drop 13 (ttest_1samp_summary L s) =
     [NULL_label @ yes_no (\<not> keep_null (ttest_1samp.alpha s) (ttest_1samp.p_val s)),
      ALT_label @ yes_no (\<not> keep_null (ttest_1samp.alpha s) (ttest_1samp.p_val s) \<and>
                   direction_holds (ttest_1samp.alt_hyp s) (ttest_1samp.t_stat s)),
      rule_line]"
  by (simp add: ttest_1samp_summary_def Let_def yes_no_def split: prod.splits)

lemma summary2_decision:
  "drop 12 (ttest_2samp_summary L s) =
     [NULL_label @ yes_no (\<not> keep_null (ttest_2samp.alpha s) (ttest_2samp.p_val s)),
      ALT_label @ yes_no (\<not> keep_null (ttest_2samp.alpha s) (ttest_2samp.p_val s) \<and>
                   direction_holds (ttest_2samp.alt_hyp s) (ttest_2samp.t_stat s)),
      rule_line]"
  by (simp add: ttest_2samp_summary_def Let_def yes_no_def split: prod.splits)

section \<open>The t-tests: the decision\<close>

text \<open>
  Claim C1, as the code has it. For every constructed one-sample or two-sample test
  whose p-value \<open>q\<close> is a number and whose alpha is not NaN: the null hypothesis is
  reported as rejected, in the lines of \<open>summary\<close> and in the \<open>reject_null\<close> entry of
  \<open>to_file\<close>, if and only if alpha is a number, \<open>0 < alpha\<close>, \<open>q < alpha\<close> and
  \<open>q\<close> is not zero; the alternative is reported as accepted if and only if the null is
  rejected and the direction holds (\<open>unequal\<close> always, \<open>less\<close> with \<open>t < 0\<close>,
  \<open>greater\<close> with \<open>t > 0\<close>).
\<close>

theorem decision_rule:
  "(ttest_1samp_init L xs pm alt al = Inr s \<and> ttest_1samp.p_val s = Float q \<and>
    al \<noteq> PFloat NaN \<longrightarrow>
      (let R = (case num_of al of Some (Float x) \<Rightarrow> 0 < x \<and> q < x \<and> q \<noteq> 0 | _ \<Rightarrow> False);
           A = (R \<and> (alt = ''unequal'' \<or>
                      (alt = ''less'' \<and> fl_less (ttest_1samp.t_stat s) (Float 0)) \<or>
                      (alt = ''greater'' \<and> fl_less (Float 0) (ttest_1samp.t_stat s))))
       in drop 13 (ttest_1samp_summary L s) =
            [NULL_label @ yes_no R, ALT_label @ yes_no A, rule_line] \<and>
          snd (ttest_1samp_to_file L s fn) ''reject_null'' = Some (JBool R) \<and>
          snd (ttest_1samp_to_file L s fn) ''accept_alt'' = Some (JBool A))) \<and>
   (ttest_2samp_init L ys zs tt ev alt2 al2 = Inr s2 \<and> ttest_2samp.p_val s2 = Float q2 \<and>
    al2 \<noteq> PFloat NaN \<longrightarrow>
      (let R = (case num_of al2 of Some (Float x) \<Rightarrow> 0 < x \<and> q2 < x \<and> q2 \<noteq> 0 | _ \<Rightarrow> False);
           A = (R \<and> (alt2 = ''unequal'' \<or>
                      (alt2 = ''less'' \<and> fl_less (ttest_2samp.t_stat s2) (Float 0)) \<or>
                      (alt2 = ''greater'' \<and> fl_less (Float 0) (ttest_2samp.t_stat s2))))
       in drop 12 (ttest_2samp_summary L s2) =
            [NULL_label @ yes_no R, ALT_label @ yes_no A, rule_line] \<and>
          snd (ttest_2samp_to_file L s2 fn2) ''reject_null'' = Some (JBool R) \<and>
          snd (ttest_2samp_to_file L s2 fn2) ''accept_alt'' = Some (JBool A)))"
proof (intro conjI impI)
  assume h: "ttest_1samp_init L xs pm alt al = Inr s \<and> ttest_1samp.p_val s = Float q \<and>
    al \<noteq> PFloat NaN"
  then have f: "check_params_1samp L alt al = None" "ttest_1samp.alt_hyp s = alt"
    "ttest_1samp.alpha s = al"
    using init1_fields by blast+
  have k: "\<not> keep_null al (Float q) \<longleftrightarrow>
           (case num_of al of Some (Float x) \<Rightarrow> 0 < x \<and> q < x \<and> q \<noteq> 0 | _ \<Rightarrow> False)"
    using keep_null_iff[of al q] check1_alpha[OF f(1)] h by blast
  show "let R = (case num_of al of Some (Float x) \<Rightarrow> 0 < x \<and> q < x \<and> q \<noteq> 0 | _ \<Rightarrow> False);
           A = (R \<and> (alt = ''unequal'' \<or>
                      (alt = ''less'' \<and> fl_less (ttest_1samp.t_stat s) (Float 0)) \<or>
                      (alt = ''greater'' \<and> fl_less (Float 0) (ttest_1samp.t_stat s))))
       in drop 13 (ttest_1samp_summary L s) =
            [NULL_label @ yes_no R, ALT_label @ yes_no A, rule_line] \<and>
          snd (ttest_1samp_to_file L s fn) ''reject_null'' = Some (JBool R) \<and>
          snd (ttest_1samp_to_file L s fn) ''accept_alt'' = Some (JBool A)"
    unfolding Let_def
    using summary1_decision[of L s] to_file1_decision[of L s fn] k h f(2,3)
      direction_holds_def
    by simp
next
  assume h: "ttest_2samp_init L ys zs tt ev alt2 al2 = Inr s2 \<and>
    ttest_2samp.p_val s2 = Float q2 \<and> al2 \<noteq> PFloat NaN"
  then have f: "check_params_2samp L tt alt2 al2 = None" "ttest_2samp.alt_hyp s2 = alt2"
    "ttest_2samp.alpha s2 = al2"
    using init2_fields by blast+
  have k: "\<not> keep_null al2 (Float q2) \<longleftrightarrow>
           (case num_of al2 of Some (Float x) \<Rightarrow> 0 < x \<and> q2 < x \<and> q2 \<noteq> 0 | _ \<Rightarrow> False)"
    using keep_null_iff[of al2 q2] check2_alpha[OF f(1)] h by blast
  show "let R = (case num_of al2 of Some (Float x) \<Rightarrow> 0 < x \<and> q2 < x \<and> q2 \<noteq> 0 | _ \<Rightarrow> False);
           A = (R \<and> (alt2 = ''unequal'' \<or>
                      (alt2 = ''less'' \<and> fl_less (ttest_2samp.t_stat s2) (Float 0)) \<or>
                      (alt2 = ''greater'' \<and> fl_less (Float 0) (ttest_2samp.t_stat s2))))
       in drop 12 (ttest_2samp_summary L s2) =
            [NULL_label @ yes_no R, ALT_label @ yes_no A, rule_line] \<and>
          snd (ttest_2samp_to_file L s2 fn2) ''reject_null'' = Some (JBool R) \<and>
          snd (ttest_2samp_to_file L s2 fn2) ''accept_alt'' = Some (JBool A)"
    unfolding Let_def
    using summary2_decision[of L s2] to_file2_decision[of L s2 fn2] k h f(2,3)
      direction_holds_def
    by simp
qed

text \<open>
  Claim C1 as stated fails where the p-value is zero: alpha \<open>0.05\<close> is supplied and
  positive, the p-value \<open>0\<close> is below it, and the null hypothesis is not rejected.
\<close>

theorem zero_p_value_counterexample:
  "ttest_1samp_init underflow_lib sample9 (PFloat (Float (- (10 ^ 60)))) ''unequal''
     (PFloat (Float 0.05)) =
     Inr \<lparr>ttest_1samp.a = sample9, popmean = PFloat (Float (- (10 ^ 60))),
          alt_hyp = ''unequal'', alpha = PFloat (Float 0.05),
          t_stat = Float (10 ^ 60), p_val = Float 0\<rparr> \<and>
   fl_less (Float 0) (Float 0.05) \<and>
   snd (ttest_1samp_to_file underflow_lib
          \<lparr>ttest_1samp.a = sample9, popmean = PFloat (Float (- (10 ^ 60))),
           alt_hyp = ''unequal'', alpha = PFloat (Float 0.05),
           t_stat = Float (10 ^ 60), p_val = Float 0\<rparr> None) ''reject_null'' =
     Some (JBool False) \<and>
   drop 13 (ttest_1samp_summary underflow_lib
          \<lparr>ttest_1samp.a = sample9, popmean = PFloat (Float (- (10 ^ 60))),
           alt_hyp = ''unequal'', alpha = PFloat (Float 0.05),
           t_stat = Float (10 ^ 60), p_val = Float 0\<rparr>) =
     [NULL_label @ ''No'', ALT_label @ ''No'', rule_line]"
  by (simp add: ttest_1samp_init_def check_params_1samp_def test_1samp_def underflow_lib_def
      ref_lib_def py_lt_def py_gt_def ttest_1samp_to_file_def ttest_1samp_summary_def
      keep_null_def Let_def)


theorem decision_rule_witness:
  "ttest_1samp_init ref_lib sample9 (PFloat (Float 4.5)) ''less'' (PFloat (Float 0.5)) =
     Inr \<lparr>ttest_1samp.a = sample9, popmean = PFloat (Float 4.5), alt_hyp = ''less'',
          alpha = PFloat (Float 0.5), t_stat = Float 0.54772255750516607,
          p_val = Float (0.59882713669728904 / 2)\<rparr> \<and>
   snd (ttest_1samp_to_file ref_lib
          \<lparr>ttest_1samp.a = sample9, popmean = PFloat (Float 4.5), alt_hyp = ''less'',
           alpha = PFloat (Float 0.5), t_stat = Float 0.54772255750516607,
           p_val = Float (0.59882713669728904 / 2)\<rparr> None) ''reject_null'' = Some (JBool True) \<and>
   snd (ttest_1samp_to_file ref_lib
          \<lparr>ttest_1samp.a = sample9, popmean = PFloat (Float 4.5), alt_hyp = ''less'',
           alpha = PFloat (Float 0.5), t_stat = Float 0.54772255750516607,
           p_val = Float (0.59882713669728904 / 2)\<rparr> None) ''accept_alt'' = Some (JBool False) \<and>
   ttest_2samp_init ref_lib sample9 sample9 ''rel'' True ''greater'' (PInt 1) =
     Inr \<lparr>ttest_2samp.a = sample9, b = sample9, test_type = ''rel'', equal_var = True,
          alt_hyp = ''greater'', alpha = PInt 1, t_stat = Float 0.3015015987751255,
          p_val = Float (0.76315763376265355 / 2)\<rparr> \<and>
   drop 12 (ttest_2samp_summary ref_lib
          \<lparr>ttest_2samp.a = sample9, b = sample9, test_type = ''rel'', equal_var = True,
           alt_hyp = ''greater'', alpha = PInt 1, t_stat = Float 0.3015015987751255,
           p_val = Float (0.76315763376265355 / 2)\<rparr>) =
     [NULL_label @ ''Yes'', ALT_label @ ''Yes'', rule_line]"
proof -
  have i1: "ttest_1samp_init ref_lib sample9 (PFloat (Float 4.5)) ''less'' (PFloat (Float 0.5)) =
     Inr \<lparr>ttest_1samp.a = sample9, popmean = PFloat (Float 4.5), alt_hyp = ''less'',
          alpha = PFloat (Float 0.5), t_stat = Float 0.54772255750516607,
          p_val = Float (0.59882713669728904 / 2)\<rparr>"
    by (simp add: ttest_1samp_init_def check_params_1samp_def test_1samp_def ref_lib_def
        py_lt_def py_gt_def)
  have i2: "ttest_2samp_init ref_lib sample9 sample9 ''rel'' True ''greater'' (PInt 1) =
     Inr \<lparr>ttest_2samp.a = sample9, b = sample9, test_type = ''rel'', equal_var = True,
          alt_hyp = ''greater'', alpha = PInt 1, t_stat = Float 0.3015015987751255,
          p_val = Float (0.76315763376265355 / 2)\<rparr>"
    by (simp add: ttest_2samp_init_def check_params_2samp_def test_2samp_def ref_lib_def
        py_lt_def py_gt_def)
  show ?thesis
    using decision_rule[of ref_lib sample9 "PFloat (Float 4.5)" "''less''" "PFloat (Float 0.5)"
        "\<lparr>ttest_1samp.a = sample9, popmean = PFloat (Float 4.5), alt_hyp = ''less'',
          alpha = PFloat (Float 0.5), t_stat = Float 0.54772255750516607,
          p_val = Float (0.59882713669728904 / 2)\<rparr>" "0.59882713669728904 / 2" None
        sample9 sample9 "''rel''" True "''greater''" "PInt 1"
        "\<lparr>ttest_2samp.a = sample9, b = sample9, test_type = ''rel'', equal_var = True,
          alt_hyp = ''greater'', alpha = PInt 1, t_stat = Float 0.3015015987751255,
          p_val = Float (0.76315763376265355 / 2)\<rparr>" "0.76315763376265355 / 2" None]
      i1 i2
    by (simp add: Let_def yes_no_def)
qed

section \<open>The t-tests: invalid parameters\<close>

text \<open>
  Claim C2, as the code has it. Construction of either test raises \<open>ValueError\<close>, whatever
  the library's t-test would do and without consulting it, when the alternative is not
  one of \<open>less\<close>, \<open>unequal\<close>, \<open>greater\<close>, when alpha is a true value (not \<open>None\<close>,
  \<open>False\<close>, zero or empty) whose type is neither \<open>int\<close> nor \<open>float\<close>, and when alpha
  is an integer or a float below 0 or above 1.
\<close>

theorem invalid_parameters_raise:
  "alt \<notin> {''less'', ''unequal'', ''greater''} \<or>
   (truthy al \<and> type_name al \<noteq> ''int'' \<and> type_name al \<noteq> ''float'') \<or>
   (\<exists>i. al = PInt i \<and> (i < 0 \<or> 1 < i)) \<or>
   (\<exists>r. al = PFloat (Float r) \<and> (r < 0 \<or> 1 < r)) \<Longrightarrow>
   (\<exists>args. ttest_1samp_init L xs pm alt al = Inl (ValueError args)) \<and>
   ttest_1samp_init (L\<lparr>stats_ttest_1samp := f\<rparr>) xs pm alt al =
     ttest_1samp_init L xs pm alt al \<and>
   (\<exists>args. ttest_2samp_init L ys zs tt ev alt al = Inl (ValueError args)) \<and>
   ttest_2samp_init (L\<lparr>stats_ttest_ind := g, stats_ttest_rel := h\<rparr>) ys zs tt ev alt al =
     ttest_2samp_init L ys zs tt ev alt al"
proof -
  assume bad: "alt \<notin> {''less'', ''unequal'', ''greater''} \<or>
   (truthy al \<and> type_name al \<noteq> ''int'' \<and> type_name al \<noteq> ''float'') \<or>
   (\<exists>i. al = PInt i \<and> (i < 0 \<or> 1 < i)) \<or>
   (\<exists>r. al = PFloat (Float r) \<and> (r < 0 \<or> 1 < r))"
  then have c1: "\<exists>args. check_params_1samp L alt al = Some (ValueError args)"
    by (auto simp: check_params_1samp_def py_lt_def py_gt_def)
  from bad have c2: "\<exists>args. check_params_2samp L tt alt al = Some (ValueError args)"
    by (auto simp: check_params_2samp_def py_lt_def py_gt_def)
  have s1: "check_params_1samp (L\<lparr>stats_ttest_1samp := f\<rparr>) alt al = check_params_1samp L alt al"
    by (cases al) (simp_all add: check_params_1samp_def)
  have s2: "check_params_2samp (L\<lparr>stats_ttest_ind := g, stats_ttest_rel := h\<rparr>) tt alt al =
            check_params_2samp L tt alt al"
    by (cases al) (simp_all add: check_params_2samp_def)
  from c1 c2 s1 s2 show ?thesis
    by (auto simp: ttest_1samp_init_def ttest_2samp_init_def)
qed

theorem invalid_parameters_raise_witness:
  "(\<exists>args. ttest_1samp_init ref_lib sample9 (PInt 5) ''bad_alt_hyp'' PNone = Inl (ValueError args)) \<and>
   (\<exists>args. ttest_2samp_init ref_lib sample9 sample9 ''ind'' True ''bad_alt_hyp'' PNone =
      Inl (ValueError args)) \<and>
   truthy (PStr ''bad_alpha'') \<and> type_name (PStr ''bad_alpha'') = ''str'' \<and>
   (\<exists>args. ttest_1samp_init ref_lib sample9 (PInt 5) ''unequal'' (PStr ''bad_alpha'') =
      Inl (ValueError args)) \<and>
   (\<exists>args. ttest_2samp_init ref_lib sample9 sample9 ''ind'' True ''unequal'' (PStr ''bad_alpha'') =
      Inl (ValueError args)) \<and>
   (\<exists>args. ttest_1samp_init ref_lib sample9 (PInt 5) ''unequal'' (PInt (- 1)) =
      Inl (ValueError args)) \<and>
   (\<exists>args. ttest_2samp_init ref_lib sample9 sample9 ''ind'' True ''unequal'' (PInt 2) =
      Inl (ValueError args))"
  using invalid_parameters_raise[of "''bad_alt_hyp''" PNone ref_lib sample9 "PInt 5"
      "stats_ttest_1samp ref_lib" sample9 sample9 "''ind''" True
      "stats_ttest_rel ref_lib" "stats_ttest_ind ref_lib"]
    invalid_parameters_raise[of "''unequal''" "PStr ''bad_alpha''" ref_lib sample9 "PInt 5"
      "stats_ttest_1samp ref_lib" sample9 sample9 "''ind''" True
      "stats_ttest_rel ref_lib" "stats_ttest_ind ref_lib"]
    invalid_parameters_raise[of "''unequal''" "PInt (- 1)" ref_lib sample9 "PInt 5"
      "stats_ttest_1samp ref_lib" sample9 sample9 "''ind''" True
      "stats_ttest_rel ref_lib" "stats_ttest_ind ref_lib"]
    invalid_parameters_raise[of "''unequal''" "PInt 2" ref_lib sample9 "PInt 5"
      "stats_ttest_1samp ref_lib" sample9 sample9 "''ind''" True
      "stats_ttest_rel ref_lib" "stats_ttest_ind ref_lib"]
  by simp

text \<open>
  Claim C2 as stated fails for an alpha that is false in a condition: the empty string is
  of type \<open>str\<close>, and the construction succeeds with it.
\<close>

theorem empty_alpha_counterexample:
  "type_name (PStr []) = ''str'' \<and>
   ttest_1samp_init ref_lib sample9 (PFloat (Float 4.5)) ''unequal'' (PStr []) =
     Inr \<lparr>ttest_1samp.a = sample9, popmean = PFloat (Float 4.5), alt_hyp = ''unequal'',
          alpha = PStr [], t_stat = Float 0.54772255750516607,
          p_val = Float 0.59882713669728904\<rparr>"
  by (simp add: ttest_1samp_init_def check_params_1samp_def test_1samp_def ref_lib_def)

section \<open>The two-sample test: the reported assumptions\<close>

text \<open>
  Claim C10. For an independent two-sample test, the assumptions text of \<open>summary\<close>
  ends with \<open>Equal Variances\<close> and the assumptions list of \<open>to_file\<close> is
  \<open>Independent Samples\<close>, \<open>Equal Variances\<close>, whether \<open>equal_var\<close> is true or false
  (in \<open>summary\<close> the flag only changes the white space before the words); the flag is
  passed on to the library's test, which computes the t-statistic and the p-value.
\<close>

theorem equal_variances_always_reported:
  "test_type s = ''ind'' \<Longrightarrow>
     summary_assumptions s =
       (if equal_var s then ''   Independent Samples'' @ [CHR 0x0A] @ ''   Equal Variances''
        else ''   Independent Samples'' @ [CHR 0x0A, CHR 0x09] @ ''Equal Variances'') \<and>
     suffix ''Equal Variances'' (summary_assumptions s) \<and>
     ttest_2samp_summary L s ! 5 = summary_assumptions s \<and>
     to_file_assumptions s = [''Independent Samples'', ''Equal Variances''] \<and>
     snd (ttest_2samp_to_file L s fn) ''assumptions'' =
       Some (JList [JStr ''Independent Samples'', JStr ''Equal Variances'']) \<and>
     test_2samp L xs ys ''ind'' (equal_var s) ''unequal'' = stats_ttest_ind L xs ys (equal_var s)"
proof -
  assume ind: "test_type s = ''ind''"
  have a: "summary_assumptions s =
       (if equal_var s then ''   Independent Samples'' @ [CHR 0x0A] @ ''   Equal Variances''
        else ''   Independent Samples'' @ [CHR 0x0A, CHR 0x09] @ ''Equal Variances'')"
    using ind by (simp add: summary_assumptions_def)
  have b: "suffix ''Equal Variances'' (summary_assumptions s)"
    unfolding a by (auto simp: suffix_def)
  have c: "ttest_2samp_summary L s ! 5 = summary_assumptions s"
    by (simp add: ttest_2samp_summary_def Let_def split: prod.splits)
  have d: "to_file_assumptions s = [''Independent Samples'', ''Equal Variances'']"
    using ind by (simp add: to_file_assumptions_def)
  have e: "snd (ttest_2samp_to_file L s fn) ''assumptions'' =
       Some (JList [JStr ''Independent Samples'', JStr ''Equal Variances''])"
    using d by (simp add: ttest_2samp_to_file_def Let_def split: prod.splits)
  have f: "test_2samp L xs ys ''ind'' (equal_var s) ''unequal'' =
           stats_ttest_ind L xs ys (equal_var s)"
    by (simp add: test_2samp_def split: sum.splits)
  from a b c d e f show ?thesis by blast
qed

theorem equal_variances_always_reported_witness:
  "test_type \<lparr>ttest_2samp.a = sample9, b = sample9, test_type = ''ind'', equal_var = False,
              alt_hyp = ''unequal'', alpha = PNone, t_stat = Float 0.29359890626535035,
              p_val = Float 0.76912546718732111\<rparr> = ''ind'' \<and>
   summary_assumptions
     \<lparr>ttest_2samp.a = sample9, b = sample9, test_type = ''ind'', equal_var = False,
      alt_hyp = ''unequal'', alpha = PNone, t_stat = Float 0.29359890626535035,
      p_val = Float 0.76912546718732111\<rparr> =
     ''   Independent Samples'' @ [CHR 0x0A, CHR 0x09] @ ''Equal Variances'' \<and>
   to_file_assumptions
     \<lparr>ttest_2samp.a = sample9, b = sample9, test_type = ''ind'', equal_var = False,
      alt_hyp = ''unequal'', alpha = PNone, t_stat = Float 0.29359890626535035,
      p_val = Float 0.76912546718732111\<rparr> = [''Independent Samples'', ''Equal Variances''] \<and>
   to_file_assumptions
     \<lparr>ttest_2samp.a = sample9, b = sample9, test_type = ''ind'', equal_var = True,
      alt_hyp = ''unequal'', alpha = PNone, t_stat = Float 0.29359890626535035,
      p_val = Float 0.76912545487694084\<rparr> = [''Independent Samples'', ''Equal Variances'']"
  using equal_variances_always_reported[of
      "\<lparr>ttest_2samp.a = sample9, b = sample9, test_type = ''ind'', equal_var = False,
        alt_hyp = ''unequal'', alpha = PNone, t_stat = Float 0.29359890626535035,
        p_val = Float 0.76912546718732111\<rparr>" ref_lib None sample9 sample9]
    equal_variances_always_reported[of
      "\<lparr>ttest_2samp.a = sample9, b = sample9, test_type = ''ind'', equal_var = True,
        alt_hyp = ''unequal'', alpha = PNone, t_stat = Float 0.29359890626535035,
        p_val = Float 0.76912545487694084\<rparr>" ref_lib None sample9 sample9]
  by simp

section \<open>The regression: what construction establishes\<close>

lemma estimate_inputs:
  assumes "estimate L s = Inr self"
  shows "\<exists>k rows y ivx. s ''x'' = Some (VArr (Mat k rows)) \<and> s ''y'' = Some (VVec y) \<and>
           linalg_inv L (gram k rows) = Inr ivx \<and> length y = length rows \<and> length y \<noteq> k"
proof -
  from assms obtain k rows y where x: "s ''x'' = Some (VArr (Mat k rows))"
    and y: "s ''y'' = Some (VVec y)"
    by (auto simp: estimate_def split: option.splits val.splits ndarray.splits)
  from assms x y obtain ivx where inv: "linalg_inv L (gram k rows) = Inr ivx"
    by (auto simp: estimate_def split: sum.splits error.splits)
  from assms x y inv have len: "length y = length rows"
    by (auto simp: estimate_def split: if_splits)
  from assms x y inv len have nz: "length y \<noteq> k"
    by (auto simp: estimate_def Let_def split: if_splits)
  from x y inv len nz show ?thesis by blast
qed

lemma estimate_frame:
  assumes "estimate L s = Inr self" and "n \<notin> set estimate_attrs"
  shows "self n = s n"
proof -
  from estimate_inputs[OF assms(1)] obtain k rows y ivx where
    h: "s ''x'' = Some (VArr (Mat k rows))" "s ''y'' = Some (VVec y)"
       "linalg_inv L (gram k rows) = Inr ivx" "length y = length rows" "length y \<noteq> k"
    by blast
  from assms h show ?thesis
    by (auto simp: estimate_def Let_def estimate_attrs_def)
qed

lemma estimate_stored:
  assumes "estimate L s = Inr self"
    and "s ''x'' = Some (VArr (Mat k rows))" and "s ''y'' = Some (VVec y)"
  shows "self ''nobs'' = Some (VInt (int (length y)))"
    and "self ''ncoef'' = Some (VInt (int k))"
    and "self ''df_e'' = Some (VInt (int (length y) - int k))"
    and "self ''df_r'' = Some (VInt (int k - 1))"
    and "\<exists>e. self ''e'' = Some (VVec e) \<and> length e = length y"
    and "\<exists>v. self ''b'' = Some (VVec v)"
    and "\<exists>v. self ''se'' = Some (VVec v)"
    and "\<exists>v. self ''t'' = Some (VVec v)"
    and "\<exists>v. self ''p'' = Some (VVec v)"
    and "\<exists>v. self ''R2'' = Some (VReal v)"
    and "\<exists>v. self ''R2adj'' = Some (VReal v)"
    and "\<exists>v. self ''F'' = Some (VReal v)"
    and "\<exists>v. self ''Fpv'' = Some (VReal v)"
proof -
  from estimate_inputs[OF assms(1)] assms(2,3) obtain ivx where
    h: "linalg_inv L (gram k rows) = Inr ivx" "length y = length rows" "length y \<noteq> k"
    by auto
  from assms h show "self ''nobs'' = Some (VInt (int (length y)))"
    by (auto simp: estimate_def Let_def)
  from assms h show "self ''ncoef'' = Some (VInt (int k))"
    by (auto simp: estimate_def Let_def)
  from assms h show "self ''df_e'' = Some (VInt (int (length y) - int k))"
    by (auto simp: estimate_def Let_def)
  from assms h show "self ''df_r'' = Some (VInt (int k - 1))"
    by (auto simp: estimate_def Let_def)
  from assms h show "\<exists>e. self ''e'' = Some (VVec e) \<and> length e = length y"
    by (auto simp: estimate_def Let_def mat_vec_def)
  from assms h show "\<exists>v. self ''b'' = Some (VVec v)"
    by (auto simp: estimate_def Let_def)
  from assms h show "\<exists>v. self ''se'' = Some (VVec v)"
    by (auto simp: estimate_def Let_def)
  from assms h show "\<exists>v. self ''t'' = Some (VVec v)"
    by (auto simp: estimate_def Let_def)
  from assms h show "\<exists>v. self ''p'' = Some (VVec v)"
    by (auto simp: estimate_def Let_def)
  from assms h show "\<exists>v. self ''R2'' = Some (VReal v)"
    by (auto simp: estimate_def Let_def)
  from assms h show "\<exists>v. self ''R2adj'' = Some (VReal v)"
    by (auto simp: estimate_def Let_def)
  from assms h show "\<exists>v. self ''F'' = Some (VReal v)"
    by (auto simp: estimate_def Let_def)
  from assms h show "\<exists>v. self ''Fpv'' = Some (VReal v)"
    by (auto simp: estimate_def Let_def)
qed

lemma estimate_succeeds:
  assumes "s ''x'' = Some (VArr (Mat k rows))" and "s ''y'' = Some (VVec y)"
    and "linalg_inv L (gram k rows) = Inr ivx" and "length y = length rows"
    and "length y \<noteq> k"
  shows "\<exists>self. estimate L s = Inr self"
  using assms by (simp add: estimate_def Let_def)


lemma ols_init_estimate: "ols_init L x y nm yn = estimate L (init_state x y nm yn)"
  by (simp add: ols_init_def init_state_def Let_def)

lemma add_ones_Mat: "\<exists>k rows. add_ones x = Mat (Suc k) rows \<and> design_gram x = gram (Suc k) rows"
  by (cases x) (auto simp: design_gram_def numeral_2_eq_2)

lemma ols_init_Inr:
  assumes "ols_init L x y nm yn = Inr self"
  shows "\<exists>k rows ivx e. add_ones x = Mat (Suc k) rows \<and>
           linalg_inv L (gram (Suc k) rows) = Inr ivx \<and>
           length y = length rows \<and> length y \<noteq> Suc k \<and>
           self ''x_varnm'' = Some (VNames (init_names x nm)) \<and>
           self ''y'' = Some (VVec y) \<and>
           self ''ncoefs'' = None \<and>
           self ''nobs'' = Some (VInt (int (length y))) \<and>
           self ''ncoef'' = Some (VInt (int (Suc k))) \<and>
           self ''e'' = Some (VVec e) \<and> length e = length y \<and>
           set result_fields \<subseteq> dom self"
proof -
  obtain k rows where m: "add_ones x = Mat (Suc k) rows" using add_ones_Mat by blast
  let ?s = "init_state x y nm yn"
  have est: "estimate L ?s = Inr self" using assms by (simp add: ols_init_estimate)
  have sx: "?s ''x'' = Some (VArr (Mat (Suc k) rows))" and sy: "?s ''y'' = Some (VVec y)"
    by (simp_all add: init_state_def m)
  from estimate_inputs[OF est] sx sy obtain ivx where
    i: "linalg_inv L (gram (Suc k) rows) = Inr ivx" "length y = length rows"
       "length y \<noteq> Suc k"
    by auto
  have fr: "self ''x_varnm'' = Some (VNames (init_names x nm))" "self ''ncoefs'' = None"
    "self ''y'' = Some (VVec y)"
    using estimate_frame[OF est, of "''x_varnm''"] estimate_frame[OF est, of "''ncoefs''"]
      estimate_frame[OF est, of "''y''"]
    by (simp_all add: estimate_attrs_def init_state_def)
  note st = estimate_stored[OF est sx sy]
  from st(5) obtain e where e: "self ''e'' = Some (VVec e)" "length e = length y" by blast
  have dom: "set result_fields \<subseteq> dom self"
    using st e by (auto simp: result_fields_def)
  from m i fr st(1,2) e dom show ?thesis by blast
qed

lemma ols_init_succeeds:
  assumes "add_ones x = Mat k rows" and "linalg_inv L (gram k rows) = Inr ivx"
    and "length y = length rows" and "length y \<noteq> k"
  shows "\<exists>self. ols_init L x y nm yn = Inr self"
  unfolding ols_init_estimate
  by (rule estimate_succeeds[where k = k and rows = rows and y = y and ivx = ivx])
     (use assms in \<open>simp_all add: init_state_def\<close>)

lemma ref_lib_normaltest: "normaltest_contract ref_lib"
  by (simp add: normaltest_contract_def ref_lib_def)

lemma exact_inv_Inr: "det m \<noteq> 0 \<Longrightarrow> \<exists>ivx. linalg_inv ref_lib m = Inr ivx"
  by (simp add: ref_lib_def exact_inv_def)

lemma x3_ok: "\<exists>self. ols_init ref_lib x3 y3 nm yn = Inr self"
proof -
  have g: "det (gram 2 [[1, 1], [1, 2], [1, 3]]) \<noteq> 0" by code_simp
  from exact_inv_Inr[OF g] obtain ivx where
    "linalg_inv ref_lib (gram 2 [[1, 1], [1, 2], [1, 3]]) = Inr ivx" by blast
  then show ?thesis
    by (intro ols_init_succeeds[where k = 2 and rows = "[[1, 1], [1, 2], [1, 3]]" and ivx = ivx])
       (simp_all add: x3_def y3_def)
qed

lemma x8_ok: "\<exists>self. ols_init ref_lib x8 y8 nm yn = Inr self"
proof -
  have g: "det (gram 2 [[1, 1], [1, 2], [1, 3], [1, 4], [1, 5], [1, 6], [1, 7], [1, 8]]) \<noteq> 0"
    by code_simp
  from exact_inv_Inr[OF g] obtain ivx where
    "linalg_inv ref_lib (gram 2 [[1, 1], [1, 2], [1, 3], [1, 4], [1, 5], [1, 6], [1, 7], [1, 8]]) =
       Inr ivx" by blast
  then show ?thesis
    by (intro ols_init_succeeds[where k = 2
          and rows = "[[1, 1], [1, 2], [1, 3], [1, 4], [1, 5], [1, 6], [1, 7], [1, 8]]"
          and ivx = ivx])
       (simp_all add: x8_def y8_def)
qed

lemma x42_ok: "\<exists>self. ols_init ref_lib x42 y4 nm yn = Inr self"
proof -
  have g: "det (gram 3 [[1, 1, 0], [1, 0, 1], [1, 1, 1], [1, 2, 0]]) \<noteq> 0" by code_simp
  from exact_inv_Inr[OF g] obtain ivx where
    "linalg_inv ref_lib (gram 3 [[1, 1, 0], [1, 0, 1], [1, 1, 1], [1, 2, 0]]) = Inr ivx" by blast
  then show ?thesis
    by (intro ols_init_succeeds[where k = 3
          and rows = "[[1, 1, 0], [1, 0, 1], [1, 1, 1], [1, 2, 0]]" and ivx = ivx])
       (simp_all add: x42_def y4_def)
qed

section \<open>The regression: a singular design\<close>




section \<open>The regression: the names\<close>

lemma estimate_outcome:
  assumes "s' ''x'' = s ''x''" and "s' ''y'' = s ''y''"
  shows "(\<forall>err. estimate L s = Inl err \<longrightarrow> estimate L s' = Inl err) \<and>
         (\<not> isl (estimate L s) \<longrightarrow> \<not> isl (estimate L s'))"
  using assms
  by (auto simp: estimate_def Let_def
      split: option.splits val.splits ndarray.splits sum.splits error.splits)

text \<open>
  Claim C5, as the code has it. The constructor never compares a supplied name list with
  the number of predictor columns: with any list of names it raises exactly the error
  it raises without names, if any, and otherwise succeeds and stores \<open>const\<close> followed
  by the supplied names (the default names when the list is empty).
\<close>

theorem names_never_checked:
  "(case ols_init L x y (Some names) yn of
      Inl err \<Rightarrow> ols_init L x y None yn = Inl err
    | Inr self \<Rightarrow>
        \<not> isl (ols_init L x y None yn) \<and>
        self ''x_varnm'' =
          Some (VNames (if names = [] then default_names x else ''const'' # names)))"
proof (cases "ols_init L x y (Some names) yn")
  case (Inl err)
  then show ?thesis
    using estimate_outcome[of "init_state x y None yn" "init_state x y (Some names) yn" L]
    by (simp add: ols_init_estimate init_state_def)
next
  case (Inr self)
  then have "\<not> isl (ols_init L x y None yn)"
    using estimate_outcome[of "init_state x y None yn" "init_state x y (Some names) yn" L]
    by (simp add: ols_init_estimate init_state_def)
  moreover from ols_init_Inr[OF Inr] have
    "self ''x_varnm'' = Some (VNames (init_names x (Some names)))" by blast
  ultimately show ?thesis using Inr by (simp add: init_names_def)
qed

text \<open>
  Claim C5 as stated fails: with one predictor column and two names, construction
  succeeds and stores three names.
\<close>

theorem names_length_counterexample:
  "shape x3 = [3] \<and> length [''a'', ''b''] \<noteq> 1 \<and>
   \<not> isl (ols_init ref_lib x3 y3 (Some [''a'', ''b'']) ''y'') \<and>
   projr (ols_init ref_lib x3 y3 (Some [''a'', ''b'']) ''y'') ''x_varnm'' =
     Some (VNames [''const'', ''a'', ''b''])"
proof -
  obtain self where s: "ols_init ref_lib x3 y3 (Some [''a'', ''b'']) ''y'' = Inr self"
    using x3_ok by blast
  from ols_init_Inr[OF s] have
    "self ''x_varnm'' = Some (VNames (init_names x3 (Some [''a'', ''b''])))" by blast
  with s show ?thesis by (simp add: init_names_def x3_def)
qed

text \<open>
  Claim C6. Without a name list, the names generated for a one-dimensional predictor or
  one of exactly one column are \<open>const\<close>, \<open>x\<close>; for \<open>k > 1\<close> columns they are
  \<open>const\<close>, \<open>x1\<close>, ..., \<open>xk\<close>; a constructed instance stores them.
\<close>

theorem default_names_generated:
  "((\<exists>v. x = Vec v) \<or> (\<exists>rows. x = Mat 1 rows) \<longrightarrow> init_names x None = [''const'', ''x'']) \<and>
   (x = Mat k rows \<and> 1 < k \<longrightarrow>
      init_names x None = ''const'' # map (\<lambda>i. ''x'' @ str_nat i) [1..<Suc k]) \<and>
   (ols_init L x y None yn = Inr self \<longrightarrow>
      self ''x_varnm'' = Some (VNames (init_names x None)))"
proof (intro conjI impI)
  assume "(\<exists>v. x = Vec v) \<or> (\<exists>rows. x = Mat 1 rows)"
  then show "init_names x None = [''const'', ''x'']"
    by (auto simp: init_names_def default_names_def)
next
  assume "x = Mat k rows \<and> 1 < k"
  then show "init_names x None = ''const'' # map (\<lambda>i. ''x'' @ str_nat i) [1..<Suc k]"
    by (simp add: init_names_def default_names_def)
next
  assume "ols_init L x y None yn = Inr self"
  from ols_init_Inr[OF this] show "self ''x_varnm'' = Some (VNames (init_names x None))"
    by blast
qed

theorem default_names_generated_witness:
  "projr (ols_init ref_lib x3 y3 None ''y'') ''x_varnm'' = Some (VNames [''const'', ''x'']) \<and>
   projr (ols_init ref_lib x42 y4 None ''y'') ''x_varnm'' =
     Some (VNames [''const'', ''x1'', ''x2'']) \<and>
   init_names (Mat 12 []) None =
     [''const'', ''x1'', ''x2'', ''x3'', ''x4'', ''x5'', ''x6'', ''x7'', ''x8'', ''x9'',
      ''x10'', ''x11'', ''x12'']"
proof -
  obtain s1 where s1: "ols_init ref_lib x3 y3 None ''y'' = Inr s1" using x3_ok by blast
  obtain s2 where s2: "ols_init ref_lib x42 y4 None ''y'' = Inr s2" using x42_ok by blast
  have n1: "s1 ''x_varnm'' = Some (VNames (init_names x3 None))"
    using default_names_generated[of x3 2 "[]" ref_lib y3 "''y''" s1] s1 by blast
  have n2: "s2 ''x_varnm'' = Some (VNames (init_names x42 None))"
    using default_names_generated[of x42 2 "[]" ref_lib y4 "''y''" s2] s2 by blast
  have e1: "init_names x3 None = [''const'', ''x'']" by code_simp
  have e2: "init_names x42 None = [''const'', ''x1'', ''x2'']" by code_simp
  have e3: "init_names (Mat 12 []) None =
     [''const'', ''x1'', ''x2'', ''x3'', ''x4'', ''x5'', ''x6'', ''x7'', ''x8'', ''x9'',
      ''x10'', ''x11'', ''x12'']" by code_simp
  from s1 s2 n1 n2 e1 e2 e3 show ?thesis by simp
qed

section \<open>The regression: the diagnostics\<close>

lemma omni_constructed:
  assumes "ols_init L x y nm yn = Inr self" and "normaltest_contract L"
  shows "\<exists>e. self ''e'' = Some (VVec e) \<and> length e = length y \<and>
           (if length e < 8 then omni L self = (Inr (NaN, NaN), self)
            else (\<exists>r. stats_normaltest L e = Inr r \<and> omni L self = (Inr r, self)))"
proof -
  from ols_init_Inr[OF assms(1)] obtain e where
    e: "self ''e'' = Some (VVec e)" "length e = length y" by blast
  show ?thesis
  proof (cases "length e < 8")
    case True
    with assms(2) obtain m where "stats_normaltest L e = Inl (ValueError m)"
      unfolding normaltest_contract_def by metis
    with e True show ?thesis by (auto simp: omni_def)
  next
    case False
    with assms(2) obtain r where "stats_normaltest L e = Inr r"
      unfolding normaltest_contract_def by metis
    with e False show ?thesis by (auto simp: omni_def)
  qed
qed

text \<open>
  Claim C7. Given the contract of \<open>stats.normaltest\<close>, on a constructed instance whose
  residual vector (one entry per observation) has fewer than 8 entries the omnibus
  test raises nothing and returns the pair (NaN, NaN); with 8 entries or more it
  returns the library's statistic and p-value.
\<close>

theorem omni_small_sample:
  assumes "ols_init L x y nm yn = Inr self" and "normaltest_contract L"
  shows "\<exists>e. self ''e'' = Some (VVec e) \<and> length e = length y \<and>
           (if length e < 8 then omni L self = (Inr (NaN, NaN), self)
            else (\<exists>r. stats_normaltest L e = Inr r \<and> omni L self = (Inr r, self)))"
  using assms by (rule omni_constructed)

theorem omni_small_sample_witness:
  "normaltest_contract ref_lib \<and>
   \<not> isl (ols_init ref_lib x3 y3 None ''y'') \<and>
   omni ref_lib (projr (ols_init ref_lib x3 y3 None ''y'')) =
     (Inr (NaN, NaN), projr (ols_init ref_lib x3 y3 None ''y'')) \<and>
   \<not> isl (ols_init ref_lib x8 y8 None ''y'') \<and>
   omni ref_lib (projr (ols_init ref_lib x8 y8 None ''y'')) =
     (Inr (Float 0, Float 1), projr (ols_init ref_lib x8 y8 None ''y''))"
proof -
  obtain s1 where s1: "ols_init ref_lib x3 y3 None ''y'' = Inr s1" using x3_ok by blast
  obtain s2 where s2: "ols_init ref_lib x8 y8 None ''y'' = Inr s2" using x8_ok by blast
  from omni_small_sample[OF s1 ref_lib_normaltest]
  have o1: "omni ref_lib s1 = (Inr (NaN, NaN), s1)"
    by (auto simp: y3_def)
  from omni_small_sample[OF s2 ref_lib_normaltest]
  have o2: "omni ref_lib s2 = (Inr (Float 0, Float 1), s2)"
    by (auto simp: y8_def ref_lib_def)
  from s1 s2 o1 o2 ref_lib_normaltest show ?thesis by simp
qed

text \<open>
  Claim C8. On a constructed instance each of \<open>dw\<close>, \<open>omni\<close>, \<open>JB\<close> and \<open>ll\<close>
  leaves the instance as it found it, so every stored field keeps its value, and a second
  call returns what the first returned. \<open>dw\<close> and \<open>JB\<close> return values; so does
  \<open>ll\<close> when there is at least one observation, and \<open>omni\<close> under the contract of
  \<open>stats.normaltest\<close>.
\<close>

theorem diagnostics_idempotent:
  assumes "ols_init L x y nm yn = Inr self"
  shows "snd (dw self) = self \<and> snd (omni L self) = self \<and>
         snd (JB L self) = self \<and> snd (ll self) = self \<and>
         fst (dw (snd (dw self))) = fst (dw self) \<and>
         fst (omni L (snd (omni L self))) = fst (omni L self) \<and>
         fst (JB L (snd (JB L self))) = fst (JB L self) \<and>
         fst (ll (snd (ll self))) = fst (ll self) \<and>
         \<not> isl (fst (dw self)) \<and> \<not> isl (fst (JB L self)) \<and>
         (y \<noteq> [] \<longrightarrow> \<not> isl (fst (ll self))) \<and>
         (normaltest_contract L \<longrightarrow> \<not> isl (fst (omni L self))) \<and>
         set result_fields \<subseteq> dom self"
proof -
  from ols_init_Inr[OF assms] obtain k e where
    h: "self ''nobs'' = Some (VInt (int (length y)))" "self ''ncoef'' = Some (VInt (int (Suc k)))"
       "self ''e'' = Some (VVec e)" "length e = length y" "set result_fields \<subseteq> dom self"
    by blast
  have s1: "snd (dw self) = self" using h by (simp add: dw_def Let_def)
  have s2: "snd (omni L self) = self"
    using h by (simp add: omni_def split: sum.splits error.splits)
  have s3: "snd (JB L self) = self" using h by (simp add: JB_def Let_def)
  have s4: "snd (ll self) = self" using h by (simp add: ll_def Let_def)
  have v1: "\<not> isl (fst (dw self))" using h by (simp add: dw_def Let_def)
  have v3: "\<not> isl (fst (JB L self))" using h by (simp add: JB_def Let_def)
  have v4: "y \<noteq> [] \<longrightarrow> \<not> isl (fst (ll self))"
  proof
    assume "y \<noteq> []"
    then have "int (length y) \<noteq> 0" by simp
    with h show "\<not> isl (fst (ll self))" by (simp add: ll_def Let_def)
  qed
  have v2: "normaltest_contract L \<longrightarrow> \<not> isl (fst (omni L self))"
  proof
    assume "normaltest_contract L"
    from omni_constructed[OF assms this] show "\<not> isl (fst (omni L self))"
      by (auto split: if_splits)
  qed
  from s1 s2 s3 s4 v1 v2 v3 v4 h(5) show ?thesis by simp
qed


theorem diagnostics_idempotent_witness:
  "\<not> isl (ols_init ref_lib x8 y8 None ''y'') \<and>
   y8 \<noteq> [] \<and> normaltest_contract ref_lib \<and>
   snd (dw (projr (ols_init ref_lib x8 y8 None ''y''))) =
     projr (ols_init ref_lib x8 y8 None ''y'') \<and>
   fst (ll (snd (ll (projr (ols_init ref_lib x8 y8 None ''y''))))) =
     fst (ll (projr (ols_init ref_lib x8 y8 None ''y''))) \<and>
   \<not> isl (fst (ll (projr (ols_init ref_lib x8 y8 None ''y'')))) \<and>
   \<not> isl (fst (omni ref_lib (projr (ols_init ref_lib x8 y8 None ''y'')))) \<and>
   set result_fields \<subseteq> dom (projr (ols_init ref_lib x8 y8 None ''y''))"
proof -
  obtain s where s: "ols_init ref_lib x8 y8 None ''y'' = Inr s" using x8_ok by blast
  have ne: "y8 \<noteq> []" by (simp add: y8_def)
  from diagnostics_idempotent[OF s] s ne ref_lib_normaltest show ?thesis by simp
qed

section \<open>The regression: the export\<close>

text \<open>
  Claim C9. On every constructed instance (with at least one observation,
  \<open>stats.normaltest\<close> keeping its contract) \<open>to_file\<close> raises
  \<open>AttributeError\<close> for \<open>ncoefs\<close>, whatever the file name, before any estimate is
  written: \<open>estimate\<close> stores \<open>ncoef\<close> and nothing stores \<open>ncoefs\<close>.
\<close>

theorem to_file_attribute_error:
  assumes "ols_init L x y nm yn = Inr self"
    and "y \<noteq> []" and "normaltest_contract L"
  shows "ols_to_file L self filename = Inl (AttributeError ''ncoefs'') \<and>
         self ''ncoefs'' = None \<and> (\<exists>k. self ''ncoef'' = Some (VInt k))"
proof -
  from ols_init_Inr[OF assms(1)] obtain k e where
    h: "self ''nobs'' = Some (VInt (int (length y)))" "self ''ncoef'' = Some (VInt (int (Suc k)))"
       "self ''e'' = Some (VVec e)" "length e = length y" "self ''y'' = Some (VVec y)"
       "self ''ncoefs'' = None"
    by blast
  from assms(2) have nz: "int (length y) \<noteq> 0" by simp
  from h nz obtain l where l: "fst (ll self) = Inr l" by (simp add: ll_def Let_def)
  from h obtain j where j: "fst (JB L self) = Inr j" by (simp add: JB_def Let_def)
  from omni_constructed[OF assms(1,3)] obtain r where r: "fst (omni L self) = Inr r"
    by (auto split: if_splits)
  have "ols_to_file L self filename = Inl (AttributeError ''ncoefs'')"
    unfolding ols_to_file_def
    by (simp add: l j r h and_then_def getattr_def split: prod.splits)
  with h show ?thesis by blast
qed

theorem to_file_attribute_error_witness:
  "\<not> isl (ols_init ref_lib x8 y8 (Some [''good_pred'']) ''nice_var'') \<and>
   y8 \<noteq> [] \<and> normaltest_contract ref_lib \<and>
   ols_to_file ref_lib (projr (ols_init ref_lib x8 y8 (Some [''good_pred'']) ''nice_var''))
     (Some ''out.json'') = Inl (AttributeError ''ncoefs'')"
proof -
  obtain s where s: "ols_init ref_lib x8 y8 (Some [''good_pred'']) ''nice_var'' = Inr s"
    using x8_ok by blast
  have ne: "y8 \<noteq> []" by (simp add: y8_def)
  from to_file_attribute_error[OF s ne ref_lib_normaltest] s ne ref_lib_normaltest
  show ?thesis by simp
qed

end
